theory Spec2Isabelle
  imports Complex_Main "HOL-Library.Product_Lexorder"
begin

section \<open>Values\<close>

text \<open>
  The pipeline computes on pandas columns of float64. A float is modelled as a real number,
  and a cell that may hold NaN as a \<open>real option\<close> with \<open>None\<close> for NaN; rounding error of
  the machine arithmetic is outside the model. Integer columns (customer ids, months, cluster
  ids) are \<open>int\<close>, text is \<open>string\<close>.
\<close>

type_synonym cell = "real option"

datatype error =
    FileNotFoundError string
  | ValueError string
  | KeyError "string list"
  | IndexError
  | TypeError string

text \<open>Arithmetic on cells propagates NaN.\<close>

definition cell2 :: "(real \<Rightarrow> real \<Rightarrow> real) \<Rightarrow> cell \<Rightarrow> cell \<Rightarrow> cell" where
  "cell2 f a b = (case a of None \<Rightarrow> None | Some x \<Rightarrow> (case b of None \<Rightarrow> None | Some y \<Rightarrow> Some (f x y)))"

text \<open>The values of a column that are not NaN, in order.\<close>

fun dropna :: "cell list \<Rightarrow> real list" where
  "dropna [] = []"
| "dropna (None # s) = dropna s"
| "dropna (Some x # s) = x # dropna s"

text \<open>\<open>Series.min()\<close>, \<open>Series.max()\<close> and \<open>Series.median()\<close> skip NaN and are NaN on a column
  with no other value.\<close>

definition series_min :: "cell list \<Rightarrow> cell" where
  "series_min s = (case dropna s of [] \<Rightarrow> None | x # xs \<Rightarrow> Some (Min (set (x # xs))))"

definition series_max :: "cell list \<Rightarrow> cell" where
  "series_max s = (case dropna s of [] \<Rightarrow> None | x # xs \<Rightarrow> Some (Max (set (x # xs))))"

definition median :: "cell list \<Rightarrow> cell" where
  "median s =
     (let ys = sort (dropna s); n = length ys
      in if n = 0 then None
         else if odd n then Some (ys ! (n div 2))
         else Some ((ys ! (n div 2 - 1) + ys ! (n div 2)) / 2))"

text \<open>\<open>np.isclose(a, b)\<close> with its default tolerances \<open>rtol = 1e-5\<close>, \<open>atol = 1e-8\<close>.\<close>

definition isclose :: "real \<Rightarrow> real \<Rightarrow> bool" where
  "isclose a b \<longleftrightarrow> \<bar>a - b\<bar> \<le> 1 / 10 ^ 8 + (1 / 10 ^ 5) * \<bar>b\<bar>"

text \<open>\<open>Series.round(6)\<close>: the value times \<open>10^6\<close>, rounded to the nearest integer with ties
  to the even one, divided by \<open>10^6\<close>.\<close>

definition round_half_even :: "real \<Rightarrow> int" where
  "round_half_even x =
     (let f = \<lfloor>x\<rfloor>; d = x - of_int f
      in if d < 1 / 2 then f else if 1 / 2 < d then f + 1
         else if even f then f else f + 1)"

definition round6 :: "real \<Rightarrow> real" where
  "round6 x = of_int (round_half_even (x * 10 ^ 6)) / 10 ^ 6"


section \<open>ScoreFusion: normalization and tiers of \<open>score_final.py\<close>\<close>

subsection \<open>\<open>minmax\<close>\<close>

text \<open>
  \<^verbatim>\<open>
  def minmax(s):
      s = s.astype(float)
      mn, mx = s.min(), s.max()
      if np.isclose(mx - mn, 0.0):
          return pd.Series(np.zeros(len(s)), index=s.index)
      return (s - mn) / (mx - mn)
  \<close>
  On a column with no value but NaN, \<open>mn\<close> and \<open>mx\<close> are NaN, \<open>np.isclose\<close> is false and
  the quotient is NaN in every row.
\<close>

definition minmax :: "cell list \<Rightarrow> cell list" where
  "minmax s =
     (case series_min s of
        None \<Rightarrow> map (\<lambda>v. None) s
      | Some mn \<Rightarrow>
          (case series_max s of
             None \<Rightarrow> map (\<lambda>v. None) s
           | Some mx \<Rightarrow>
               if isclose (mx - mn) 0 then replicate (length s) (Some 0)
               else map (map_option (\<lambda>v. (v - mn) / (mx - mn))) s))"

subsection \<open>Priority tiers\<close>

datatype priority = Low | Medium | High

text \<open>
  \<open>pd.cut(x, bins=[-0.01, 0.33, 0.66, 1.01], labels=["Low", "Medium", "High"])\<close>: the bins
  are open on the left and closed on the right, and a value in no bin gets NaN.
\<close>

definition cut :: "real \<Rightarrow> priority option" where
  "cut x =
     (if - (1 / 100) < x \<and> x \<le> 33 / 100 then Some Low
      else if 33 / 100 < x \<and> x \<le> 66 / 100 then Some Medium
      else if 66 / 100 < x \<and> x \<le> 101 / 100 then Some High
      else None)"


section \<open>TransitionEstimator: \<open>compute_markov\<close> of \<open>markov_transitions.py\<close>\<close>

text \<open>A row of the monthly table \<open>df_clusters\<close>: the columns that \<open>compute_markov\<close> reads.\<close>

record observation =
  customer_id :: int
  month :: int
  cluster :: int

text \<open>A DataFrame with row labels, column labels and one list of cells per row.\<close>

record ('l, 'a) frame =
  index :: "'l list"
  columns :: "'l list"
  rows :: "'a list list"

text \<open>\<open>fr.loc[i, j]\<close>, \<open>None\<close> where the frame has no such row or column label.\<close>

definition loc :: "('l, 'a) frame \<Rightarrow> 'l \<Rightarrow> 'l \<Rightarrow> 'a option" where
  "loc fr i j =
     (case map_of (zip (index fr) (rows fr)) i of
        None \<Rightarrow> None
      | Some r \<Rightarrow> map_of (zip (columns fr) r) j)"

text \<open>\<open>df_clusters.sort_values(["customer_id", "month"])\<close>. Rows with the same customer
  and month keep their order; the data model has no such rows.\<close>

definition sort_values :: "observation list \<Rightarrow> observation list" where
  "sort_values df = sort_key (\<lambda>r. (customer_id r, month r)) df"

text \<open>
  \<open>df.groupby("customer_id")[col].shift(-1)\<close>: every row gets the value of the next row of
  its own customer, NaN when it is the customer's last row. \<open>cluster_next\<close> and
  \<open>month_next\<close> are two columns of that same next row.
\<close>

fun shift_next :: "observation list \<Rightarrow> (observation \<times> observation option) list" where
  "shift_next [] = []"
| "shift_next (r # rs) = (r, find (\<lambda>n. customer_id n = customer_id r) rs) # shift_next rs"

text \<open>
  \<open>trans = df[(df["cluster_next"].notna()) & (df["month_next"] == df["month"] + 1)]\<close>,
  each kept row with the next row its two shifted columns come from.
\<close>

definition transitions :: "observation list \<Rightarrow> (observation \<times> observation) list" where
  "transitions df =
     concat (map (\<lambda>(r, nx). case nx of None \<Rightarrow> []
                    | Some n \<Rightarrow> if month n = month r + 1 then [(r, n)] else [])
               (shift_next (sort_values df)))"

text \<open>\<open>pd.crosstab(a, b)\<close> with its labels sorted: the labels are the values that occur.\<close>

definition crosstab :: "int list \<Rightarrow> int list \<Rightarrow> (int, nat) frame" where
  "crosstab a b =
     (let idx = sort (remdups a); cols = sort (remdups b)
      in \<lparr>index = idx, columns = cols,
          rows = map (\<lambda>i. map (\<lambda>j. count_list (zip a b) (i, j)) cols) idx\<rparr>)"

text \<open>\<open>fr.reindex(index=idx, columns=cols, fill_value=v)\<close>.\<close>

definition reindex :: "('l, 'a) frame \<Rightarrow> 'l list \<Rightarrow> 'l list \<Rightarrow> 'a \<Rightarrow> ('l, 'a) frame" where
  "reindex fr idx cols fill_value =
     \<lparr>index = idx, columns = cols,
      rows = map (\<lambda>i. map (\<lambda>j. case loc fr i j of None \<Rightarrow> fill_value | Some v \<Rightarrow> v) cols) idx\<rparr>"

text \<open>\<open>Series.max()\<close> of an integer column: NaN on an empty column.\<close>

definition series_max_int :: "int list \<Rightarrow> int option" where
  "series_max_int s = (case s of [] \<Rightarrow> None | x # xs \<Rightarrow> Some (Max (set (x # xs))))"

text \<open>Python's \<open>max(a, b)\<close>: \<open>b\<close> if \<open>b > a\<close>, else \<open>a\<close>; a comparison with NaN is false.\<close>

definition py_max :: "int option \<Rightarrow> int option \<Rightarrow> int option" where
  "py_max a b =
     (case a of None \<Rightarrow> a
      | Some x \<Rightarrow> (case b of None \<Rightarrow> a | Some y \<Rightarrow> if y > x then b else a))"

text \<open>
  One row of \<open>counts.div(counts.sum(axis=1).replace(0, np.nan), axis=0).fillna(0.0)\<close>: the
  row sum, NaN in place of a zero sum, the quotients, and 0 in place of a NaN quotient.
\<close>

definition row_probs :: "nat list \<Rightarrow> real list" where
  "row_probs r =
     (let total = sum_list r;
          denom = (if total = 0 then None else Some (real total))
      in map (\<lambda>c. case cell2 (\<lambda>x y. x / y) (Some (real c)) denom of None \<Rightarrow> 0 | Some p \<Rightarrow> p) r)"

definition probs_of_counts :: "('l, nat) frame \<Rightarrow> ('l, real) frame" where
  "probs_of_counts counts =
     \<lparr>index = index counts, columns = columns counts, rows = map row_probs (rows counts)\<rparr>"

text \<open>
  \<^verbatim>\<open>
  def compute_markov(df_clusters):
      df = df_clusters.sort_values(["customer_id", "month"]).copy()
      df["cluster_next"] = df.groupby("customer_id")["cluster"].shift(-1)
      df["month_next"] = df.groupby("customer_id")["month"].shift(-1)
      trans = df[(df["cluster_next"].notna()) & (df["month_next"] == df["month"] + 1)].copy()
      trans["cluster_next"] = trans["cluster_next"].astype(int)
      counts = pd.crosstab(trans["cluster"], trans["cluster_next"]).sort_index(axis=0).sort_index(axis=1)
      k = int(max(df["cluster"].max(), trans["cluster_next"].max()))
      all_states = list(range(k + 1))
      counts = counts.reindex(index=all_states, columns=all_states, fill_value=0)
      probs = counts.div(counts.sum(axis=1).replace(0, np.nan), axis=0).fillna(0.0)
      return counts, probs
  \<close>
  On an empty table both maxima are NaN and \<open>int\<close> raises ValueError.
\<close>

definition compute_markov ::
  "observation list \<Rightarrow> error + ((int, nat) frame \<times> (int, real) frame)" where
  "compute_markov df_clusters =
     (let trans = transitions df_clusters;
          counts0 = crosstab (map (\<lambda>t. cluster (fst t)) trans) (map (\<lambda>t. cluster (snd t)) trans)
      in case py_max (series_max_int (map cluster df_clusters))
                     (series_max_int (map (\<lambda>t. cluster (snd t)) trans)) of
           None \<Rightarrow> Inl (ValueError ''cannot convert float NaN to integer'')
         | Some k \<Rightarrow>
             (let all_states = [0..k];
                  counts = reindex counts0 all_states all_states 0
              in Inr (counts, probs_of_counts counts)))"

text \<open>The number of clusters that \<open>main\<close> fits: \<open>load_or_train_kmeans(k=4, seed=42)\<close>.\<close>

definition n_clusters :: int where
  "n_clusters = 4"


text \<open>Shorthand for a row of the monthly table.\<close>

definition obs :: "int \<Rightarrow> int \<Rightarrow> int \<Rightarrow> observation" where
  "obs c m k = \<lparr>customer_id = c, month = m, cluster = k\<rparr>"


section \<open>ScoreFusion: the stage \<open>main\<close> of \<open>score_final.py\<close>\<close>

subsection \<open>Input tables\<close>

text \<open>
  The clustered feature table (\<open>customer_features_with_cluster[_named].csv\<close>): its header
  and, per row, the three columns that ScoreFusion reads. \<open>cluster_name\<close> is \<open>None\<close> where
  the cell is missing.
\<close>

record base_row =
  b_customer_id :: int
  b_cluster :: int
  b_cluster_name :: "string option"

record base_csv =
  base_columns :: "string list"
  base_rows :: "base_row list"

text \<open>A table of float columns keyed by \<open>customer_id\<close>: its header and, per row, the
  customer id and the cells by column name.\<close>

record num_row =
  n_customer_id :: int
  n_cells :: "(string \<times> cell) list"

record num_csv =
  num_columns :: "string list"
  num_rows :: "num_row list"

text \<open>The cluster profile cards: header and, per row, the cluster id and the float cells.\<close>

record card_row =
  c_cluster :: int
  c_cells :: "(string \<times> cell) list"

record cards_csv =
  cards_columns :: "string list"
  cards_rows :: "card_row list"

text \<open>
  The files that the stages read, \<open>None\<close> or \<open>False\<close> for an absent file:
  \<^item> \<open>transactions_monthly\<close>: \<open>data/raw/transactions_monthly.csv\<close> (its header);
  \<^item> \<open>customer_features\<close>: \<open>data/processed/customer_features.csv\<close> (its header);
  \<^item> \<open>features_named\<close>: \<open>data/processed/customer_features_with_cluster_named.csv\<close>;
  \<^item> \<open>features_clustered\<close>: \<open>data/processed/customer_features_with_cluster.csv\<close>;
  \<^item> \<open>scaler_pkl\<close>, \<open>kmeans_pkl\<close>: \<open>models/scaler.pkl\<close>, \<open>models/kmeans.pkl\<close>;
  \<^item> \<open>propensity_scores\<close>, \<open>survival_probabilities\<close>, \<open>survival_expected_time\<close>,
    \<open>markov_transition_matrix\<close>, \<open>cluster_profile_cards\<close>: the csv files of these names
    under \<open>reports/tables/\<close>.
  The transition matrix is held with the labels that \<open>load_markov_matrix\<close> gives it
  (\<open>M.index.map(str)\<close>, \<open>M.columns.map(str)\<close>).
\<close>

record files =
  transactions_monthly :: "string list option"
  customer_features :: "string list option"
  features_named :: "base_csv option"
  features_clustered :: "base_csv option"
  scaler_pkl :: bool
  kmeans_pkl :: bool
  propensity_scores :: "num_csv option"
  survival_probabilities :: "num_csv option"
  survival_expected_time :: "num_csv option"
  markov_transition_matrix :: "(string, cell) frame option"
  cluster_profile_cards :: "cards_csv option"

text \<open>The cell of a row in a named column, NaN where the row has none.\<close>

definition cell_of :: "(string \<times> cell) list \<Rightarrow> string \<Rightarrow> cell" where
  "cell_of cells c = (case map_of cells c of None \<Rightarrow> None | Some v \<Rightarrow> v)"

text \<open>\<open>t[["customer_id", c]]\<close>.\<close>

definition select_column :: "num_csv \<Rightarrow> string \<Rightarrow> (int \<times> cell) list" where
  "select_column t c = map (\<lambda>r. (n_customer_id r, cell_of (n_cells r) c)) (num_rows t)"

text \<open>Python's \<open>str\<close> of an integer.\<close>

function str_nat :: "nat \<Rightarrow> string" where
  "str_nat n = (if n < 10 then [''0123456789'' ! n]
                else str_nat (n div 10) @ [''0123456789'' ! (n mod 10)])"
  by pat_completeness auto
termination
  by (relation "measure id") auto

definition str :: "int \<Rightarrow> string" where
  "str i = (if i < 0 then CHR ''-'' # str_nat (nat (- i)) else str_nat (nat i))"

subsection \<open>Loading the inputs\<close>

text \<open>
  \<^verbatim>\<open>
  base_path = Path("data/processed/customer_features_with_cluster_named.csv")
  if not base_path.exists():
      base_path = Path("data/processed/customer_features_with_cluster.csv")
  if not base_path.exists():
      raise FileNotFoundError("Missing clustered features. Run:\n" ...)
  base = pd.read_csv(base_path)
  if "customer_id" not in base.columns or "cluster" not in base.columns:
      raise ValueError("Base must contain customer_id and cluster.")
  \<close>
\<close>

definition load_base :: "files \<Rightarrow> error + base_csv" where
  "load_base fs =
     (case (case features_named fs of Some t \<Rightarrow> Some t | None \<Rightarrow> features_clustered fs) of
        None \<Rightarrow> Inl (FileNotFoundError
                 (''Missing clustered features. Run:'' @ [CHR 0x0A] @
                  ''- python -m src.build_features'' @ [CHR 0x0A] @
                  ''- python -m src.cluster_profiles''))
      | Some base \<Rightarrow>
          if ''customer_id'' \<notin> set (base_columns base) \<or> ''cluster'' \<notin> set (base_columns base)
          then Inl (ValueError ''Base must contain customer_id and cluster.'')
          else Inr base)"

text \<open>
  The propensity column is the first of four candidate names that the header has, else the
  first column that is not \<open>customer_id\<close>; indexing \<open>[0]\<close> into an empty list of such
  columns raises IndexError.
\<close>

definition load_prop :: "files \<Rightarrow> error + (int \<times> cell) list" where
  "load_prop fs =
     (case propensity_scores fs of
        None \<Rightarrow> Inl (FileNotFoundError
                 ''Missing reports/tables/propensity_scores.csv (run propensity_model).'')
      | Some prop \<Rightarrow>
          if ''customer_id'' \<notin> set (num_columns prop)
          then Inl (ValueError ''propensity_scores.csv must have customer_id.'')
          else (case find (\<lambda>c. c \<in> set (num_columns prop))
                       [''propensity_investment'', ''propensity'', ''score'', ''p_investment''] of
                  Some prop_col \<Rightarrow> Inr (select_column prop prop_col)
                | None \<Rightarrow>
                    (case filter (\<lambda>c. c \<noteq> ''customer_id'') (num_columns prop) of
                       [] \<Rightarrow> Inl IndexError
                     | prop_col # _ \<Rightarrow> Inr (select_column prop prop_col))))"

text \<open>
  The survival tables. The 3-month column is the first of three candidate names that the
  header has, else the first column that is not \<open>customer_id\<close>, else \<open>None\<close>; selecting
  columns that the table does not have raises KeyError.
\<close>

definition load_surv :: "files \<Rightarrow> error + ((int \<times> cell) list \<times> (int \<times> cell) list)" where
  "load_surv fs =
     (case survival_probabilities fs of
        None \<Rightarrow> Inl (FileNotFoundError ''Missing survival outputs. Run: python -m src.survival_model'')
      | Some surv_prob \<Rightarrow>
     (case survival_expected_time fs of
        None \<Rightarrow> Inl (FileNotFoundError ''Missing survival outputs. Run: python -m src.survival_model'')
      | Some surv_time \<Rightarrow>
          (let p3_col =
                 (case find (\<lambda>c. c \<in> set (num_columns surv_prob))
                         [''p_adopt_3m'', ''p_adopt_30d'', ''p_30d''] of
                    Some c \<Rightarrow> Some c
                  | None \<Rightarrow>
                      (case filter (\<lambda>c. c \<noteq> ''customer_id'') (num_columns surv_prob) of
                         [] \<Rightarrow> None
                       | c # _ \<Rightarrow> Some c))
           in if ''customer_id'' \<notin> set (num_columns surv_prob) \<or> p3_col = None
              then Inl (KeyError
                     (filter (\<lambda>c. c \<notin> set (num_columns surv_prob))
                        [''customer_id'', (case p3_col of None \<Rightarrow> ''None'' | Some c \<Rightarrow> c)]))
              else case filter (\<lambda>c. c \<notin> set (num_columns surv_time))
                          [''customer_id'', ''expected_time_months''] of
                     [] \<Rightarrow> Inr (select_column surv_prob (the p3_col),
                                select_column surv_time ''expected_time_months'')
                   | missing \<Rightarrow> Inl (KeyError missing))))"

definition load_markov_matrix :: "files \<Rightarrow> error + (string, cell) frame" where
  "load_markov_matrix fs =
     (case markov_transition_matrix fs of
        None \<Rightarrow> Inl (FileNotFoundError
                 ''Missing reports/tables/markov_transition_matrix.csv (run markov_transitions).'')
      | Some M \<Rightarrow> Inr M)"

text \<open>
  \<open>find_risk_cluster_id\<close>: the cluster of the card with the highest late-payment rate;
  \<open>None\<close> when the cards file is absent, or has none of the three rate columns, or no
  \<open>cluster\<close> column. \<open>sort_values(risk_col, ascending=False)\<close> keeps NaN last and equal
  rates in file order; \<open>iloc[0]\<close> of a table without rows raises IndexError.
\<close>

definition find_risk_cluster_id :: "files \<Rightarrow> error + int option" where
  "find_risk_cluster_id fs =
     (case cluster_profile_cards fs of
        None \<Rightarrow> Inr None
      | Some cards \<Rightarrow>
          (case find (\<lambda>col. col \<in> set (cards_columns cards))
                  [''late_payment_rate'', ''m12_late_payment_rate'', ''m3_late_payment_rate''] of
             None \<Rightarrow> Inr None
           | Some risk_col \<Rightarrow>
               if ''cluster'' \<notin> set (cards_columns cards) then Inr None
               else (case sort_key (\<lambda>r. case cell_of (c_cells r) risk_col of
                                          None \<Rightarrow> (1 :: nat, 0 :: real)
                                        | Some v \<Rightarrow> (0, - v)) (cards_rows cards) of
                       [] \<Rightarrow> Inl IndexError
                     | r # _ \<Rightarrow> Inr (Some (c_cluster r)))))"

subsection \<open>The transition-risk lookup\<close>

definition risk_state_name :: string where
  "risk_state_name = ''Low''"

text \<open>
  \<open>float(M.loc[r, c])\<close> for labels that the matrix has. The column labels of a csv file
  are distinct as pandas reads them; where the row label \<open>r\<close> occurs more than once,
  \<open>M.loc[r, c]\<close> is a Series of several cells and \<open>float\<close> raises TypeError.
\<close>

definition float_loc :: "(string, cell) frame \<Rightarrow> string \<Rightarrow> string \<Rightarrow> error + cell" where
  "float_loc M r c =
     (if 1 < count_list (index M) r
      then Inl (TypeError ''cannot convert the series to float'')
      else Inr (case loc M r c of None \<Rightarrow> None | Some v \<Rightarrow> v))"

text \<open>\<open>Series.apply(f)\<close>: \<open>f\<close> on every cell in order; the first exception ends it.\<close>

fun apply_series :: "('a \<Rightarrow> error + 'b) \<Rightarrow> 'a list \<Rightarrow> error + 'b list" where
  "apply_series f [] = Inr []"
| "apply_series f (x # xs) =
     (case f x of
        Inl e \<Rightarrow> Inl e
      | Inr y \<Rightarrow> (case apply_series f xs of Inl e \<Rightarrow> Inl e | Inr ys \<Rightarrow> Inr (y # ys)))"

text \<open>
  \<^verbatim>\<open>
  def transition_to_risk(current_cluster):
      row_key = str(current_cluster)
      if row_key in M.index and risk_cluster_id is not None and str(risk_cluster_id) in M.columns:
          return float(M.loc[row_key, str(risk_cluster_id)])
      if risk_state_name in M.columns:
          return np.nan
      return np.nan
  \<close>
\<close>

definition transition_to_risk ::
  "(string, cell) frame \<Rightarrow> int option \<Rightarrow> int \<Rightarrow> error + cell" where
  "transition_to_risk M risk_cluster_id current_cluster =
     (let row_key = str current_cluster
      in case risk_cluster_id of
           None \<Rightarrow> Inr None
         | Some rid \<Rightarrow>
             if row_key \<in> set (index M) \<and> str rid \<in> set (columns M)
             then float_loc M row_key (str rid)
             else Inr None)"

text \<open>
  \<^verbatim>\<open>
  def transition_named(cluster_name):
      if pd.isna(cluster_name):
          return np.nan
      s = str(cluster_name)
      if s in M.index and risk_state_name in M.columns:
          return float(M.loc[s, risk_state_name])
      return np.nan
  \<close>
\<close>

definition transition_named :: "(string, cell) frame \<Rightarrow> string option \<Rightarrow> error + cell" where
  "transition_named M cluster_name =
     (case cluster_name of
        None \<Rightarrow> Inr None
      | Some s \<Rightarrow>
          if s \<in> set (index M) \<and> risk_state_name \<in> set (columns M)
          then float_loc M s risk_state_name
          else Inr None)"

text \<open>
  \<open>left.merge(right, on="customer_id", how="left")\<close>: every left row with each right row of
  its customer id, in the right table's order, or once with NaN when there is none.
\<close>

definition merge_left :: "('a \<Rightarrow> int) \<Rightarrow> 'a list \<Rightarrow> (int \<times> 'b) list \<Rightarrow> ('a \<times> 'b option) list" where
  "merge_left k left right =
     concat (map (\<lambda>l. case filter (\<lambda>r. fst r = k l) right of
                         [] \<Rightarrow> [(l, None)]
                       | ms \<Rightarrow> map (\<lambda>r. (l, Some (snd r))) ms) left)"

text \<open>A NaN-able cell merged from the right table: NaN when no row matched.\<close>

definition merged_cell :: "cell option \<Rightarrow> cell" where
  "merged_cell m = (case m of None \<Rightarrow> None | Some c \<Rightarrow> c)"

text \<open>
  The rows of \<open>base\<close> with their column \<open>p_next_risk\<close>, before its NaN are filled:
  \<^verbatim>\<open>
  base["p_next_risk"] = base["cluster"].apply(transition_to_risk)
  if base["p_next_risk"].isna().all() and risk_state_name in M.columns:
      full = pd.read_csv(base_path)
      if "cluster_name" in full.columns:
          tmp = full[["customer_id", "cluster_name"]].copy()
          base = base.merge(tmp, on="customer_id", how="left")
          base["p_next_risk"] = base["cluster_name"].apply(transition_named)
  \<close>
  A row is (customer id, cluster, \<open>p_next_risk\<close>).
\<close>

definition risk_lookup ::
  "(string, cell) frame \<Rightarrow> int option \<Rightarrow> base_csv \<Rightarrow> error + (int \<times> int \<times> cell) list" where
  "risk_lookup M risk_cluster_id full =
     (let base = map (\<lambda>r. (b_customer_id r, b_cluster r)) (base_rows full)
      in case apply_series (transition_to_risk M risk_cluster_id) (map snd base) of
           Inl e \<Rightarrow> Inl e
         | Inr p_next_risk \<Rightarrow>
             if (\<forall>v \<in> set p_next_risk. v = None) \<and> risk_state_name \<in> set (columns M)
                \<and> ''cluster_name'' \<in> set (base_columns full)
             then (let tmp = map (\<lambda>r. (b_customer_id r, b_cluster_name r)) (base_rows full);
                       merged = merge_left fst base tmp
                   in case apply_series (transition_named M)
                             (map (\<lambda>(b, nm). case nm of None \<Rightarrow> None | Some n \<Rightarrow> n) merged) of
                        Inl e \<Rightarrow> Inl e
                      | Inr named \<Rightarrow>
                          Inr (map (\<lambda>((b, nm), v). (fst b, snd b, v)) (zip merged named)))
             else Inr (map (\<lambda>(b, v). (fst b, snd b, v)) (zip base p_next_risk)))"

text \<open>\<open>base["p_next_risk"] = base["p_next_risk"].fillna(0.0)\<close>.\<close>

definition fill_risk :: "(int \<times> int \<times> cell) list \<Rightarrow> (int \<times> int \<times> real) list" where
  "fill_risk base = map (\<lambda>(cid, c, v). (cid, c, case v of None \<Rightarrow> 0 | Some x \<Rightarrow> x)) base"

subsection \<open>The final score\<close>

text \<open>A row of the merged frame \<open>df\<close>, and a row of the result.\<close>

record merged_row =
  customer :: int
  current_cluster :: int
  p_next_risk :: cell
  propensity :: cell
  p_adopt_3m :: cell
  expected_time_months :: cell

record score_row = merged_row +
  final_score :: cell
  priority :: "priority option"

text \<open>
  \<^verbatim>\<open>
  df = base.merge(prop, on="customer_id", how="left")
  df = df.merge(surv_prob, on="customer_id", how="left")
  df = df.merge(surv_time, on="customer_id", how="left")
  df["propensity"] = df["propensity"].fillna(0.0)
  df["p_adopt_3m"] = df["p_adopt_3m"].fillna(0.0)
  df["expected_time_months"] = df["expected_time_months"].fillna(df["expected_time_months"].median())
  \<close>
\<close>

definition merge_inputs ::
  "(int \<times> int \<times> real) list \<Rightarrow> (int \<times> cell) list \<Rightarrow> (int \<times> cell) list \<Rightarrow> (int \<times> cell) list
     \<Rightarrow> merged_row list" where
  "merge_inputs base prop surv_prob surv_time =
     (let df1 = merge_left fst base prop;
          df2 = merge_left (\<lambda>r. fst (fst r)) df1 surv_prob;
          df3 = merge_left (\<lambda>r. fst (fst (fst r))) df2 surv_time;
          times = map (\<lambda>r. merged_cell (snd r)) df3
      in map (\<lambda>(((b, p), p3), t).
            \<lparr>customer = fst b, current_cluster = fst (snd b),
             p_next_risk = Some (snd (snd b)),
             propensity = (case merged_cell p of None \<Rightarrow> Some 0 | Some x \<Rightarrow> Some x),
             p_adopt_3m = (case merged_cell p3 of None \<Rightarrow> Some 0 | Some x \<Rightarrow> Some x),
             expected_time_months = (case merged_cell t of None \<Rightarrow> median times | Some x \<Rightarrow> Some x)\<rparr>)
          df3)"

text \<open>
  \<^verbatim>\<open>
  s_prop = minmax(df["propensity"])
  s_p3 = minmax(df["p_adopt_3m"])
  s_time = 1.0 - minmax(df["expected_time_months"])
  s_urgency = 0.6 * s_p3 + 0.4 * s_time
  s_risk = minmax(df["p_next_risk"])
  w_prop, w_urg, w_risk = 0.50, 0.30, 0.20
  df["final_score"] = (w_prop * s_prop + w_urg * s_urgency + w_risk * s_risk).round(6)
  df["priority"] = pd.cut(df["final_score"], bins=[-0.01, 0.33, 0.66, 1.01],
                          labels=["Low", "Medium", "High"])
  \<close>
\<close>

definition final_scores :: "merged_row list \<Rightarrow> cell list" where
  "final_scores df =
     (let s_prop = minmax (map propensity df);
          s_p3 = minmax (map p_adopt_3m df);
          s_time = map (cell2 (\<lambda>x y. x - y) (Some 1)) (minmax (map expected_time_months df));
          s_urgency = map (\<lambda>(a, b). cell2 (\<lambda>x y. x + y) (cell2 (\<lambda>x y. x * y) (Some (6 / 10)) a)
                                                        (cell2 (\<lambda>x y. x * y) (Some (4 / 10)) b))
                        (zip s_p3 s_time);
          s_risk = minmax (map p_next_risk df);
          w_prop = 50 / 100; w_urg = 30 / 100; w_risk = 20 / 100
      in map (\<lambda>(p, u, r).
                map_option round6
                  (cell2 (\<lambda>x y. x + y)
                     (cell2 (\<lambda>x y. x + y) (cell2 (\<lambda>x y. x * y) (Some w_prop) p)
                                            (cell2 (\<lambda>x y. x * y) (Some w_urg) u))
                     (cell2 (\<lambda>x y. x * y) (Some w_risk) r)))
           (zip s_prop (zip s_urgency s_risk)))"

definition score :: "merged_row list \<Rightarrow> score_row list" where
  "score df =
     map (\<lambda>(r, f).
            \<lparr>customer = customer r, current_cluster = current_cluster r,
             p_next_risk = p_next_risk r, propensity = propensity r,
             p_adopt_3m = p_adopt_3m r, expected_time_months = expected_time_months r,
             final_score = f, priority = (case f of None \<Rightarrow> None | Some x \<Rightarrow> cut x)\<rparr>)
       (zip df (final_scores df))"

text \<open>
  \<open>main\<close> of \<open>score_final.py\<close>: the loads in the order of the source, each of which may
  raise, then the lookup, the merge and the score. Columns hold what their type says
  (customer and cluster ids are integers, the other cells floats), so the conversions
  \<open>astype(int)\<close>, \<open>astype(float)\<close> and \<open>int(...)\<close> do not raise. The result is the frame \<open>df\<close>; that it
  is written to \<open>final_scores.csv\<close> sorted by descending score is not modelled.
\<close>

definition main :: "files \<Rightarrow> error + score_row list" where
  "main fs =
     (case load_base fs of Inl e \<Rightarrow> Inl e | Inr full \<Rightarrow>
      case load_prop fs of Inl e \<Rightarrow> Inl e | Inr prop \<Rightarrow>
      case load_surv fs of Inl e \<Rightarrow> Inl e | Inr (surv_prob, surv_time) \<Rightarrow>
      case load_markov_matrix fs of Inl e \<Rightarrow> Inl e | Inr M \<Rightarrow>
      case find_risk_cluster_id fs of Inl e \<Rightarrow> Inl e | Inr risk_cluster_id \<Rightarrow>
      case risk_lookup M risk_cluster_id full of Inl e \<Rightarrow> Inl e | Inr base \<Rightarrow>
        Inr (score (merge_inputs (fill_risk base) prop surv_prob surv_time)))"


text \<open>The transition-risk lookup as the specification words it, for one customer: the
  numeric path, else the name path, else 0.\<close>

definition lookup_chain_spec ::
  "(string, cell) frame \<Rightarrow> int option \<Rightarrow> int \<Rightarrow> string option \<Rightarrow> real" where
  "lookup_chain_spec M risk_cluster_id c nm =
     (case transition_to_risk M risk_cluster_id c of
        Inr (Some v) \<Rightarrow> v
      | _ \<Rightarrow> (case transition_named M nm of Inr (Some v) \<Rightarrow> v | _ \<Rightarrow> 0))"

section \<open>The inputs of the other stages\<close>

text \<open>\<open>pd.read_csv(path)\<close> raises FileNotFoundError when there is no file at the path.\<close>

definition read_csv :: "string \<Rightarrow> 'a option \<Rightarrow> error + 'a" where
  "read_csv path file =
     (case file of
        None \<Rightarrow> Inl (FileNotFoundError
                 (''[Errno 2] No such file or directory: '' @ [CHR 0x27] @ path @ [CHR 0x27]))
      | Some t \<Rightarrow> Inr t)"

subsection \<open>FeatureAggregator: \<open>build_features.py\<close>\<close>

text \<open>
  \<open>main\<close> reads the raw panel, groups it by \<open>customer_id\<close>, aggregates eight of its columns
  into ten named columns, resets the index and writes
  \<open>data/processed/customer_features.csv\<close>. The model keeps the headers: the columns that
  the raw panel must have, and the header of the table written.
\<close>

definition build_features :: "files \<Rightarrow> error + files" where
  "build_features fs =
     (case read_csv ''data/raw/transactions_monthly.csv'' (transactions_monthly fs) of
        Inl e \<Rightarrow> Inl e
      | Inr df \<Rightarrow>
          if ''customer_id'' \<notin> set df then Inl (KeyError [''customer_id''])
          else (case filter (\<lambda>c. c \<notin> set df)
                       [''age'', ''income'', ''balance'', ''card_spend'', ''utilization'',
                        ''pix_count'', ''late_payment'', ''event_investment'',
                        ''time_to_investment''] of
                  [] \<Rightarrow> Inr (fs\<lparr>customer_features := Some
                             [''customer_id'', ''age'', ''income'', ''mean_balance'',
                              ''std_balance'', ''mean_card_spend'', ''mean_utilization'',
                              ''mean_pix'', ''late_payment_rate'', ''adopted_ever'',
                              ''time_to_investment'']\<rparr>)
                | missing \<Rightarrow> Inl (KeyError missing)))"

subsection \<open>ClusterProfiler: the features that \<open>cluster_profiles.py\<close> reads\<close>

definition feature_cols :: "string list" where
  "feature_cols = [''age'', ''income'', ''mean_balance'', ''std_balance'', ''mean_card_spend'',
                   ''mean_utilization'', ''mean_pix'', ''late_payment_rate'']"

text \<open>
  \<open>df = pd.read_csv("data/processed/customer_features.csv")\<close>, \<open>X = df[feature_cols]\<close>:
  the columns of \<open>X\<close>, or the exception.
\<close>

definition cluster_profiles_features :: "files \<Rightarrow> error + string list" where
  "cluster_profiles_features fs =
     (case read_csv ''data/processed/customer_features.csv'' (customer_features fs) of
        Inl e \<Rightarrow> Inl e
      | Inr df \<Rightarrow>
          (case filter (\<lambda>c. c \<notin> set df) feature_cols of
             [] \<Rightarrow> Inr feature_cols
           | missing \<Rightarrow> Inl (KeyError missing)))"

subsection \<open>TransitionEstimator: the model of \<open>markov_transitions.py\<close>\<close>

text \<open>Where the standardization and clustering model comes from: loaded from the two files
  under \<open>models/\<close>, or fitted on the named columns of the aggregated feature table. The
  fit itself (scikit-learn) is outside the model.\<close>

datatype model_source = Loaded | Trained "string list"

definition train_cols :: "string list" where
  "train_cols = [''age'', ''income'', ''m12_mean_balance'', ''m12_std_balance'',
                 ''m12_mean_card_spend'', ''m12_mean_utilization'', ''m12_mean_pix'',
                 ''m12_late_payment_rate'']"

text \<open>
  \<^verbatim>\<open>
  def load_or_train_kmeans(k=4, seed=42):
      if joblib is not None and scaler_path.exists() and km_path.exists():
          return joblib.load(scaler_path), joblib.load(km_path)
      feats_path = Path("data/processed/customer_features.csv")
      if not feats_path.exists():
          raise FileNotFoundError("Rode primeiro: python -m src.build_features")
      df = pd.read_csv(feats_path)
      train_cols = [...]
      X = df[train_cols].copy()
      ... fit the scaler and KMeans on X ...
  \<close>
  \<open>joblib\<close> tells whether the module \<open>joblib\<close> could be imported. \<open>df[train_cols]\<close> raises
  KeyError when the table lacks one of the columns.
\<close>

definition load_or_train_kmeans :: "bool \<Rightarrow> files \<Rightarrow> error + model_source" where
  "load_or_train_kmeans joblib fs =
     (if joblib \<and> scaler_pkl fs \<and> kmeans_pkl fs then Inr Loaded
      else case customer_features fs of
             None \<Rightarrow> Inl (FileNotFoundError ''Rode primeiro: python -m src.build_features'')
           | Some df \<Rightarrow>
               (case filter (\<lambda>c. c \<notin> set df) train_cols of
                  [] \<Rightarrow> Inr (Trained train_cols)
                | missing \<Rightarrow> Inl (KeyError missing)))"

text \<open>Python's \<open>repr\<close> of a list of strings, as an f-string prints it.\<close>

fun repr_items :: "string list \<Rightarrow> string" where
  "repr_items [] = []"
| "repr_items [x] = [CHR 0x27] @ x @ [CHR 0x27]"
| "repr_items (x # y # ys) = [CHR 0x27] @ x @ [CHR 0x27] @ '', '' @ repr_items (y # ys)"

definition repr_list :: "string list \<Rightarrow> string" where
  "repr_list xs = ''['' @ repr_items xs @ '']''"

text \<open>
  The start of \<open>main\<close> of \<open>markov_transitions.py\<close>, up to the model: the raw panel must
  exist (the message of the source is in Portuguese, its one letter outside ASCII given
  here by its two bytes in UTF-8), \<open>build_monthly_table\<close> needs nine columns of it, and
  \<open>main\<close> calls \<open>load_or_train_kmeans(k=4, seed=42)\<close>.
\<close>

definition markov_model :: "bool \<Rightarrow> files \<Rightarrow> error + model_source" where
  "markov_model joblib fs =
     (case transactions_monthly fs of
        None \<Rightarrow> Inl (FileNotFoundError
                 (''Arquivo n'' @ [CHR 0xC3, CHR 0xA3] @
                  ''o encontrado: data/raw/transactions_monthly.csv''))
      | Some raw \<Rightarrow>
          (case filter (\<lambda>c. c \<notin> set raw)
                  [''customer_id'', ''month'', ''age'', ''income'', ''balance'', ''card_spend'',
                   ''utilization'', ''pix_count'', ''late_payment''] of
             [] \<Rightarrow> load_or_train_kmeans joblib fs
           | missing \<Rightarrow> Inl (ValueError (''Colunas faltando no raw: '' @ repr_list missing))))"

subsection \<open>SurvivalEstimator and PropensityEstimator: the feature table they read\<close>

text \<open>
  \<open>survival_model.main\<close> takes the first of the three feature tables that exists and needs
  two columns of it; the result is the header of the table read.
\<close>

definition survival_features :: "files \<Rightarrow> error + string list" where
  "survival_features fs =
     (case (case features_named fs of
              Some t \<Rightarrow> Some (base_columns t)
            | None \<Rightarrow> (case features_clustered fs of
                         Some t \<Rightarrow> Some (base_columns t)
                       | None \<Rightarrow> customer_features fs)) of
        None \<Rightarrow> Inl (FileNotFoundError
                 ''Run build_features / cluster_profiles first. No feature table found.'')
      | Some df \<Rightarrow>
          if ''time_to_investment'' \<notin> set df
          then Inl (ValueError (''Missing '' @ [CHR 0x27] @ ''time_to_investment''
                                @ [CHR 0x27] @ '' in features.''))
          else if ''adopted_ever'' \<notin> set df
          then Inl (ValueError (''Missing '' @ [CHR 0x27] @ ''adopted_ever''
                                @ [CHR 0x27] @ '' in features (event indicator).''))
          else Inr df)"

text \<open>\<open>load_features\<close> of \<open>propensity_model.py\<close>.\<close>

definition load_features :: "files \<Rightarrow> error + base_csv" where
  "load_features fs =
     (case features_named fs of
        Some t \<Rightarrow> Inr t
      | None \<Rightarrow>
          (case features_clustered fs of
             Some t \<Rightarrow> Inr t
           | None \<Rightarrow> Inl (FileNotFoundError
                 (''Could not find clustered features. Run clustering first:'' @ [CHR 0x0A] @
                  ''- python -m src.build_features'' @ [CHR 0x0A] @
                  ''- python -m src.cluster_profiles''))))"

section \<open>ClusterProfiler: the labels of \<open>cluster_profiles.py\<close>\<close>

text \<open>A row of \<open>summary2\<close>: the cluster and the four column means that are ranked.\<close>

record summary_row =
  s_cluster :: int
  late_payment_rate :: real
  income :: real
  mean_pix :: real
  mean_utilization :: real

text \<open>\<open>Series.rank(method="dense", ascending=False)\<close>: one more than the number of
  distinct larger values.\<close>

definition rank_dense_desc :: "real list \<Rightarrow> nat list" where
  "rank_dense_desc s = map (\<lambda>x. length (remdups (filter (\<lambda>y. x < y) s)) + 1) s"

text \<open>The four profile names of the source, without their accents: \<open>Digital Credito
  Intensivo\<close>, \<open>Alta Renda Estavel\<close>, \<open>Digital Estavel\<close>, \<open>Conservador Tradicional\<close>. The
  source sets a fixed description with each name.\<close>

datatype profile =
    Digital_Credito_Intensivo
  | Alta_Renda_Estavel
  | Digital_Estavel
  | Conservador_Tradicional

text \<open>
  \<^verbatim>\<open>
  risk_rank = summary2["late_payment_rate"].rank(method="dense", ascending=False)
  income_rank = summary2["income"].rank(method="dense", ascending=False)
  pix_rank = summary2["mean_pix"].rank(method="dense", ascending=False)
  util_rank = summary2["mean_utilization"].rank(method="dense", ascending=False)
  for _, row in summary2.iterrows():
      c = int(row["cluster"])
      high_risk = risk_rank[row.name] == 1
      high_income = income_rank[row.name] == 1
      high_digital = pix_rank[row.name] == 1
      high_credit = util_rank[row.name] == 1
      if high_risk and high_digital: name = "Digital Credito Intensivo"
      elif high_income: name = "Alta Renda Estavel"
      elif high_digital: name = "Digital Estavel"
      else: name = "Conservador Tradicional"
      cluster_name_map[c] = name
  \<close>
  The result lists the entries of \<open>cluster_name_map\<close> in the order of the rows; \<open>summary2\<close>
  has one row per cluster.
\<close>

definition cluster_name_map :: "summary_row list \<Rightarrow> (int \<times> profile) list" where
  "cluster_name_map summary2 =
     (let risk_rank = rank_dense_desc (map late_payment_rate summary2);
          income_rank = rank_dense_desc (map income summary2);
          pix_rank = rank_dense_desc (map mean_pix summary2);
          util_rank = rank_dense_desc (map mean_utilization summary2)
      in map (\<lambda>i.
            (let row = summary2 ! i;
                 c = s_cluster row;
                 high_risk = (risk_rank ! i = 1);
                 high_income = (income_rank ! i = 1);
                 high_digital = (pix_rank ! i = 1);
                 high_credit = (util_rank ! i = 1)
             in (c, if high_risk \<and> high_digital then Digital_Credito_Intensivo
                    else if high_income then Alta_Renda_Estavel
                    else if high_digital then Digital_Estavel
                    else Conservador_Tradicional)))
          [0 ..< length summary2])"

text \<open>
  The labelling as the specification words it: a cluster is top on an axis when no cluster
  has a larger value there, and the first rule that matches gives the label.
\<close>

definition is_top :: "real list \<Rightarrow> real \<Rightarrow> bool" where
  "is_top s x \<longleftrightarrow> (\<forall>y \<in> set s. y \<le> x)"

definition cascade_spec :: "bool \<Rightarrow> bool \<Rightarrow> bool \<Rightarrow> profile" where
  "cascade_spec top_risk top_income top_digital =
     (if top_risk \<and> top_digital then Digital_Credito_Intensivo
      else if top_income then Alta_Renda_Estavel
      else if top_digital then Digital_Estavel
      else Conservador_Tradicional)"


section \<open>Example inputs\<close>

text \<open>
  Two monthly tables. In the first, one customer is seen in 21 consecutive months and moves
  between states 0 and 1: state 0 is followed 8 times by 0 and twice by 1, state 1 once by 0
  and 9 times by 1. The second has a customer whose month 3 is missing.
\<close>

definition df21 :: "observation list" where
  "df21 = map (\<lambda>(m, k). obs 7 m k)
     [(1,0),(2,0),(3,0),(4,0),(5,0),(6,0),(7,0),(8,0),(9,0),
      (10,1),(11,1),(12,1),(13,1),(14,1),(15,1),(16,1),(17,1),(18,1),(19,1),
      (20,0),(21,1)]"

definition df_gap :: "observation list" where
  "df_gap = [obs 2 1 0, obs 1 4 1, obs 1 1 0, obs 1 2 1, obs 2 2 0]"


text \<open>
  The pipeline's files for the examples: none at all; the raw panel alone; and the raw
  panel with the feature table that \<open>build_features\<close> writes from it.
\<close>

definition raw_columns :: "string list" where
  "raw_columns = [''customer_id'', ''month'', ''age'', ''income'', ''balance'', ''card_spend'',
                  ''utilization'', ''pix_count'', ''late_payment'', ''event_investment'',
                  ''time_to_investment'']"

definition files_none :: files where
  "files_none =
     \<lparr>transactions_monthly = None, customer_features = None, features_named = None,
      features_clustered = None, scaler_pkl = False, kmeans_pkl = False,
      propensity_scores = None, survival_probabilities = None, survival_expected_time = None,
      markov_transition_matrix = None, cluster_profile_cards = None\<rparr>"

definition files_raw :: files where
  "files_raw = files_none\<lparr>transactions_monthly := Some raw_columns\<rparr>"

definition files_features :: files where
  "files_features = files_raw\<lparr>customer_features := Some
     [''customer_id'', ''age'', ''income'', ''mean_balance'', ''std_balance'',
      ''mean_card_spend'', ''mean_utilization'', ''mean_pix'', ''late_payment_rate'',
      ''adopted_ever'', ''time_to_investment'']\<rparr>"

text \<open>A cluster summary: cluster 0 has the highest late-payment rate and (with cluster
  2) the highest transaction count, cluster 1 the highest income.\<close>

definition summary_demo :: "summary_row list" where
  "summary_demo =
     [\<lparr>s_cluster = 0, late_payment_rate = 30 / 100, income = 4000, mean_pix = 25,
       mean_utilization = 5 / 10\<rparr>,
      \<lparr>s_cluster = 1, late_payment_rate = 5 / 100, income = 9000, mean_pix = 10,
       mean_utilization = 2 / 10\<rparr>,
      \<lparr>s_cluster = 2, late_payment_rate = 10 / 100, income = 5000, mean_pix = 25,
       mean_utilization = 6 / 10\<rparr>,
      \<lparr>s_cluster = 3, late_payment_rate = 10 / 100, income = 3000, mean_pix = 12,
       mean_utilization = 3 / 10\<rparr>]"

text \<open>
  Inputs of ScoreFusion. In \<open>files_demo\<close> three customers span the ranges propensity
  0..1, 3-month probability 0.1..0.9, expected time 1..12 and transition risk 0..1, and
  customer 3 has 0.8, 0.5, 3 and 0.4; \<open>df_demo\<close> is the merged frame of that run.
  \<open>files_no_cards\<close> lacks the profile cards (and \<open>files_named_no_cards\<close> has a matrix
  with named states besides), the next three lack one other input, in \<open>files_flat\<close> every
  customer is in cluster 2, and \<open>files_mixed\<close> has a matrix with a numeric and a named row.
\<close>

definition base_demo :: base_csv where
  "base_demo =
     \<lparr>base_columns = [''customer_id'', ''cluster'', ''cluster_name''],
      base_rows =
        [\<lparr>b_customer_id = 1, b_cluster = 0, b_cluster_name = Some ''A''\<rparr>,
         \<lparr>b_customer_id = 2, b_cluster = 1, b_cluster_name = Some ''B''\<rparr>,
         \<lparr>b_customer_id = 3, b_cluster = 2, b_cluster_name = Some ''C''\<rparr>]\<rparr>"

definition base_flat :: base_csv where
  "base_flat =
     \<lparr>base_columns = [''customer_id'', ''cluster'', ''cluster_name''],
      base_rows =
        [\<lparr>b_customer_id = 1, b_cluster = 2, b_cluster_name = Some ''C''\<rparr>,
         \<lparr>b_customer_id = 2, b_cluster = 2, b_cluster_name = Some ''C''\<rparr>,
         \<lparr>b_customer_id = 3, b_cluster = 2, b_cluster_name = Some ''C''\<rparr>]\<rparr>"

definition base_mixed :: base_csv where
  "base_mixed =
     \<lparr>base_columns = [''customer_id'', ''cluster'', ''cluster_name''],
      base_rows =
        [\<lparr>b_customer_id = 1, b_cluster = 0, b_cluster_name = Some ''A''\<rparr>,
         \<lparr>b_customer_id = 2, b_cluster = 5, b_cluster_name = Some ''B''\<rparr>]\<rparr>"

definition matrix_demo :: "(string, cell) frame" where
  "matrix_demo =
     \<lparr>index = [''0'', ''1'', ''2''], columns = [''0'', ''1'', ''2''],
      rows = [[Some 1, Some 0, Some 0], [Some 0, Some 1, Some 0],
              [Some (3 / 10), Some (4 / 10), Some (3 / 10)]]\<rparr>"

definition matrix_named :: "(string, cell) frame" where
  "matrix_named =
     \<lparr>index = [''A'', ''B''], columns = [''High'', ''Low''],
      rows = [[Some (9 / 10), Some (1 / 10)], [Some (3 / 10), Some (7 / 10)]]\<rparr>"

definition matrix_mixed :: "(string, cell) frame" where
  "matrix_mixed =
     \<lparr>index = [''0'', ''B''], columns = [''0'', ''Low''],
      rows = [[Some (3 / 10), Some (7 / 10)], [Some (2 / 10), Some (8 / 10)]]\<rparr>"

definition cards_demo :: cards_csv where
  "cards_demo =
     \<lparr>cards_columns = [''cluster'', ''late_payment_rate''],
      cards_rows =
        [\<lparr>c_cluster = 0, c_cells = [(''late_payment_rate'', Some (5 / 100))]\<rparr>,
         \<lparr>c_cluster = 1, c_cells = [(''late_payment_rate'', Some (30 / 100))]\<rparr>,
         \<lparr>c_cluster = 2, c_cells = [(''late_payment_rate'', Some (10 / 100))]\<rparr>]\<rparr>"

definition cards_mixed :: cards_csv where
  "cards_mixed =
     \<lparr>cards_columns = [''cluster'', ''late_payment_rate''],
      cards_rows =
        [\<lparr>c_cluster = 0, c_cells = [(''late_payment_rate'', Some (30 / 100))]\<rparr>,
         \<lparr>c_cluster = 5, c_cells = [(''late_payment_rate'', Some (10 / 100))]\<rparr>]\<rparr>"

definition files_demo :: files where
  "files_demo =
     \<lparr>transactions_monthly = None, customer_features = None,
      features_named = Some base_demo,
      features_clustered = None, scaler_pkl = False, kmeans_pkl = False,
      propensity_scores = Some
        \<lparr>num_columns = [''customer_id'', ''propensity_investment''],
         num_rows =
           [\<lparr>n_customer_id = 1, n_cells = [(''propensity_investment'', Some 0)]\<rparr>,
            \<lparr>n_customer_id = 2, n_cells = [(''propensity_investment'', Some 1)]\<rparr>,
            \<lparr>n_customer_id = 3, n_cells = [(''propensity_investment'', Some (8 / 10))]\<rparr>]\<rparr>,
      survival_probabilities = Some
        \<lparr>num_columns = [''customer_id'', ''p_adopt_3m''],
         num_rows =
           [\<lparr>n_customer_id = 1, n_cells = [(''p_adopt_3m'', Some (1 / 10))]\<rparr>,
            \<lparr>n_customer_id = 2, n_cells = [(''p_adopt_3m'', Some (9 / 10))]\<rparr>,
            \<lparr>n_customer_id = 3, n_cells = [(''p_adopt_3m'', Some (5 / 10))]\<rparr>]\<rparr>,
      survival_expected_time = Some
        \<lparr>num_columns = [''customer_id'', ''expected_time_months''],
         num_rows =
           [\<lparr>n_customer_id = 1, n_cells = [(''expected_time_months'', Some 1)]\<rparr>,
            \<lparr>n_customer_id = 2, n_cells = [(''expected_time_months'', Some 12)]\<rparr>,
            \<lparr>n_customer_id = 3, n_cells = [(''expected_time_months'', Some 3)]\<rparr>]\<rparr>,
      markov_transition_matrix = Some matrix_demo,
      cluster_profile_cards = Some cards_demo\<rparr>"

definition files_no_cards :: files where
  "files_no_cards = files_demo\<lparr>cluster_profile_cards := None\<rparr>"

definition files_no_propensity :: files where
  "files_no_propensity = files_demo\<lparr>propensity_scores := None\<rparr>"

definition files_no_survival :: files where
  "files_no_survival = files_demo\<lparr>survival_expected_time := None\<rparr>"

definition files_no_matrix :: files where
  "files_no_matrix = files_demo\<lparr>markov_transition_matrix := None\<rparr>"

definition files_named_no_cards :: files where
  "files_named_no_cards =
     files_demo\<lparr>markov_transition_matrix := Some matrix_named, cluster_profile_cards := None\<rparr>"

definition files_flat :: files where
  "files_flat = files_demo\<lparr>features_named := Some base_flat\<rparr>"

definition files_mixed :: files where
  "files_mixed = files_demo\<lparr>features_named := Some base_mixed,
     markov_transition_matrix := Some matrix_mixed, cluster_profile_cards := Some cards_mixed\<rparr>"

definition df_demo :: "merged_row list" where
  "df_demo =
     [\<lparr>customer = 1, current_cluster = 0, p_next_risk = Some 0, propensity = Some 0,
       p_adopt_3m = Some (1 / 10), expected_time_months = Some 1\<rparr>,
      \<lparr>customer = 2, current_cluster = 1, p_next_risk = Some 1, propensity = Some 1,
       p_adopt_3m = Some (9 / 10), expected_time_months = Some 12\<rparr>,
      \<lparr>customer = 3, current_cluster = 2, p_next_risk = Some (4 / 10), propensity = Some (8 / 10),
       p_adopt_3m = Some (5 / 10), expected_time_months = Some 3\<rparr>]"


section \<open>Properties\<close>

lemma dropna_set: "set (dropna s) = {x. Some x \<in> set s}"
  by (induction s rule: dropna.induct) auto

lemma series_min_Some:
  assumes "series_min s = Some mn"
  shows "Some mn \<in> set s" and "\<And>x. Some x \<in> set s \<Longrightarrow> mn \<le> x"
proof -
  from assms obtain y ys where d: "dropna s = y # ys" and mn: "mn = Min (set (y # ys))"
    by (auto simp: series_min_def split: list.splits)
  have "mn \<in> set (y # ys)" unfolding mn by (rule Min_in) simp_all
  then show "Some mn \<in> set s" using dropna_set [of s] d by auto
  fix x assume "Some x \<in> set s"
  then have "x \<in> set (y # ys)" using dropna_set [of s] d by auto
  then show "mn \<le> x" unfolding mn by (intro Min_le) simp_all
qed

lemma series_max_Some:
  assumes "series_max s = Some mx"
  shows "Some mx \<in> set s" and "\<And>x. Some x \<in> set s \<Longrightarrow> x \<le> mx"
proof -
  from assms obtain y ys where d: "dropna s = y # ys" and mx: "mx = Max (set (y # ys))"
    by (auto simp: series_max_def split: list.splits)
  have "mx \<in> set (y # ys)" unfolding mx by (rule Max_in) simp_all
  then show "Some mx \<in> set s" using dropna_set [of s] d by auto
  fix x assume "Some x \<in> set s"
  then have "x \<in> set (y # ys)" using dropna_set [of s] d by auto
  then show "x \<le> mx" unfolding mx by (intro Max_ge) simp_all
qed

lemma series_min_None: "series_min s = None \<longleftrightarrow> dropna s = []"
  by (simp add: series_min_def split: list.splits)

lemma series_max_None: "series_max s = None \<longleftrightarrow> dropna s = []"
  by (simp add: series_max_def split: list.splits)

lemma length_minmax: "length (minmax s) = length s"
  by (simp add: minmax_def split: option.splits)

lemma minmax_value_range:
  assumes "Some v \<in> set (minmax s)"
  shows "0 \<le> v \<and> v \<le> 1"
proof (cases "series_min s")
  case None
  with assms show ?thesis by (auto simp: minmax_def)
next
  case mn: (Some mn)
  then have "dropna s \<noteq> []" using series_min_None [of s] by simp
  then obtain mx where mx: "series_max s = Some mx"
    using series_max_None [of s] by (cases "series_max s") auto
  show ?thesis
  proof (cases "isclose (mx - mn) 0")
    case True
    with assms mn mx show ?thesis by (auto simp: minmax_def)
  next
    case False
    with assms mn mx obtain a where a: "a \<in> set s"
      and ca: "Some v = map_option (\<lambda>v. (v - mn) / (mx - mn)) a"
      by (auto simp: minmax_def)
    obtain x where x: "a = Some x" and v: "v = (x - mn) / (mx - mn)"
      using ca by (cases a) auto
    have lo: "mn \<le> x" using series_min_Some(2) [OF mn] a x by simp
    have hi: "x \<le> mx" using series_max_Some(2) [OF mx] a x by simp
    from False have "mx - mn \<noteq> 0" by (auto simp: isclose_def)
    with lo hi have pos: "0 < mx - mn" by simp
    have "0 \<le> (x - mn) / (mx - mn)" using lo pos by simp
    moreover have "(x - mn) / (mx - mn) \<le> 1" using hi pos by (simp add: divide_le_eq)
    ultimately show ?thesis using v by simp
  qed
qed

lemma minmax_no_nan:
  assumes "None \<notin> set s"
  shows "None \<notin> set (minmax s)"
proof (cases "series_min s")
  case None
  then have "dropna s = []" by (simp add: series_min_None)
  then have "{x. Some x \<in> set s} = {}" using dropna_set [of s] by simp
  with assms have "s = []" by (cases s) (auto, metis option.exhaust)
  then show ?thesis by (simp add: minmax_def series_min_def)
next
  case mn: (Some mn)
  then have "dropna s \<noteq> []" using series_min_None [of s] by simp
  then obtain mx where mx: "series_max s = Some mx"
    using series_max_None [of s] by (cases "series_max s") auto
  show ?thesis using assms mn mx by (auto simp: minmax_def)
qed

lemma minmax_constant:
  assumes "series_min s = Some m" "series_max s = Some m"
  shows "minmax s = replicate (length s) (Some 0)"
  using assms by (simp add: minmax_def isclose_def)

lemma series_min_None_iff: "series_min s = None \<longleftrightarrow> (\<forall>c \<in> set s. c = None)"
proof -
  have "dropna s = [] \<longleftrightarrow> (\<forall>c \<in> set s. c = None)"
    by (induction s rule: dropna.induct) auto
  then show ?thesis by (simp add: series_min_None)
qed

lemma series_max_of_min:
  assumes "series_min s = Some mn"
  shows "\<exists>mx. series_max s = Some mx"
proof -
  from assms have "dropna s \<noteq> []" using series_min_None [of s] by simp
  then show ?thesis using series_max_None [of s] by (cases "series_max s") auto
qed

text \<open>
  C10. \<open>minmax\<close> scales a column with its observed minimum \<open>mn\<close> and maximum \<open>mx\<close> (the
  least and the greatest value of the column that is not NaN) and keeps its length: when
  \<open>mx - mn\<close> is not close to zero every value \<open>v\<close> becomes \<open>(v - mn) / (mx - mn)\<close>, with a
  divisor that is not zero, and otherwise (in particular for a constant column) the result
  is all zeros. A column of nothing but NaN stays NaN. Every scaled value that is not NaN
  lies in [0,1], and a column without NaN (ScoreFusion fills the NaN of a column before it
  normalizes it) has no NaN after scaling. The arithmetic is that of the real numbers.
\<close>

theorem minmax_range:
  "length (minmax s) = length s
   \<and> (series_min s = None \<longleftrightarrow> (\<forall>c \<in> set s. c = None))
   \<and> (series_min s = None \<longrightarrow> minmax s = map (\<lambda>v. None) s)
   \<and> (\<forall>mn. series_min s = Some mn \<longrightarrow>
          Some mn \<in> set s \<and> (\<forall>x. Some x \<in> set s \<longrightarrow> mn \<le> x)
          \<and> (\<exists>mx. series_max s = Some mx))
   \<and> (\<forall>mx. series_max s = Some mx \<longrightarrow>
          Some mx \<in> set s \<and> (\<forall>x. Some x \<in> set s \<longrightarrow> x \<le> mx))
   \<and> (\<forall>mn mx. series_min s = Some mn \<and> series_max s = Some mx \<and> \<not> isclose (mx - mn) 0
          \<longrightarrow> mx - mn \<noteq> 0
              \<and> minmax s = map (map_option (\<lambda>v. (v - mn) / (mx - mn))) s)
   \<and> (\<forall>mn mx. series_min s = Some mn \<and> series_max s = Some mx \<and> isclose (mx - mn) 0
          \<longrightarrow> minmax s = replicate (length s) (Some 0))
   \<and> (\<forall>m. series_min s = Some m \<and> series_max s = Some m \<longrightarrow>
          minmax s = replicate (length s) (Some 0))
   \<and> (\<forall>v. Some v \<in> set (minmax s) \<longrightarrow> 0 \<le> v \<and> v \<le> 1)
   \<and> (None \<notin> set s \<longrightarrow> None \<notin> set (minmax s))
   \<and> (\<forall>d. isclose d 0 \<longleftrightarrow> \<bar>d\<bar> \<le> 1 / 10 ^ 8)"
proof (intro conjI)
  show "\<forall>d. isclose d 0 \<longleftrightarrow> \<bar>d\<bar> \<le> 1 / 10 ^ 8" by (simp add: isclose_def)
  show "length (minmax s) = length s" by (rule length_minmax)
  show "series_min s = None \<longleftrightarrow> (\<forall>c \<in> set s. c = None)" by (rule series_min_None_iff)
  show "series_min s = None \<longrightarrow> minmax s = map (\<lambda>v. None) s" by (simp add: minmax_def)
  show "\<forall>mn. series_min s = Some mn \<longrightarrow>
          Some mn \<in> set s \<and> (\<forall>x. Some x \<in> set s \<longrightarrow> mn \<le> x)
          \<and> (\<exists>mx. series_max s = Some mx)"
    using series_min_Some [of s] series_max_of_min [of s] by blast
  show "\<forall>mx. series_max s = Some mx \<longrightarrow>
          Some mx \<in> set s \<and> (\<forall>x. Some x \<in> set s \<longrightarrow> x \<le> mx)"
    using series_max_Some [of s] by blast
  show "\<forall>mn mx. series_min s = Some mn \<and> series_max s = Some mx \<and> \<not> isclose (mx - mn) 0
          \<longrightarrow> mx - mn \<noteq> 0
              \<and> minmax s = map (map_option (\<lambda>v. (v - mn) / (mx - mn))) s"
    by (auto simp: minmax_def isclose_def)
  show "\<forall>mn mx. series_min s = Some mn \<and> series_max s = Some mx \<and> isclose (mx - mn) 0
          \<longrightarrow> minmax s = replicate (length s) (Some 0)"
    by (auto simp: minmax_def)
  show "\<forall>m. series_min s = Some m \<and> series_max s = Some m \<longrightarrow>
          minmax s = replicate (length s) (Some 0)"
    using minmax_constant [of s] by blast
  show "\<forall>v. Some v \<in> set (minmax s) \<longrightarrow> 0 \<le> v \<and> v \<le> 1"
    using minmax_value_range [of _ s] by blast
  show "None \<notin> set s \<longrightarrow> None \<notin> set (minmax s)"
    using minmax_no_nan [of s] by blast
qed

theorem minmax_range_witness:
  "series_min [Some (2::real), Some 2] = Some 2 \<and> series_max [Some (2::real), Some 2] = Some 2
   \<and> isclose (2 - 2) 0
   \<and> minmax [Some 2, Some 2] = replicate (length [Some (2::real), Some 2]) (Some 0)
   \<and> None \<notin> set [Some (0::real), Some 10, Some 1, Some 9]
   \<and> series_min [Some (0::real), Some 10, Some 1, Some 9] = Some 0
   \<and> series_max [Some (0::real), Some 10, Some 1, Some 9] = Some 10
   \<and> \<not> isclose (10 - 0) 0
   \<and> 10 - 0 \<noteq> (0::real)
   \<and> minmax [Some 0, Some 10, Some 1, Some 9]
       = map (map_option (\<lambda>v. (v - 0) / (10 - 0))) [Some 0, Some 10, Some 1, Some 9]
   \<and> minmax [Some 0, Some 10, Some 1, Some 9] = [Some 0, Some 1, Some (1 / 10), Some (9 / 10)]
   \<and> Some (9 / 10) \<in> set (minmax [Some 0, Some 10, Some 1, Some 9])
   \<and> None \<notin> set (minmax [Some 0, Some 10, Some 1, Some 9])
   \<and> series_min [None, None] = None
   \<and> minmax [None, None] = [None, None]
   \<and> minmax [Some 5, None, Some 7] = [Some 0, None, Some 1]"
proof -
  have a: "series_min [Some (2::real), Some 2] = Some 2 \<and> series_max [Some (2::real), Some 2] = Some 2
   \<and> isclose (2 - 2) 0
   \<and> series_min [Some (0::real), Some 10, Some 1, Some 9] = Some 0
   \<and> series_max [Some (0::real), Some 10, Some 1, Some 9] = Some 10
   \<and> \<not> isclose (10 - 0) 0 \<and> series_min [None, None] = None"
    by code_simp
  have b: "minmax [Some 0, Some 10, Some 1, Some 9] = [Some 0, Some 1, Some (1 / 10), Some (9 / 10)]
    \<and> minmax [None, None] = [None, None]
    \<and> minmax [Some 5, None, Some 7] = [Some 0, None, Some 1]
    \<and> minmax [Some 2, Some 2] = [Some 0, Some 0]"
    by code_simp
  have c: "minmax [Some 0, Some 10, Some 1, Some 9]
       = map (map_option (\<lambda>v. (v - 0) / (10 - 0))) [Some 0, Some 10, Some 1, Some 9]"
    using minmax_range [of "[Some 0, Some 10, Some 1, Some 9]"] a by blast
  show ?thesis using a b c by simp
qed

text \<open>
  C9. Every final score in [0,1] gets exactly one tier: Low on [0, 0.33], Medium on
  (0.33, 0.66], High on (0.66, 1].
\<close>

theorem cut_partition:
  assumes "0 \<le> x" and "x \<le> 1"
  shows "cut x = Some (if x \<le> 33 / 100 then Low else if x \<le> 66 / 100 then Medium else High)"
  using assms by (simp add: cut_def)

theorem cut_partition_witness:
  "(0::real) \<le> 0 \<and> (0::real) \<le> 1 \<and> cut 0 = Some Low
   \<and> cut (33 / 100) = Some Low \<and> cut (1 / 2) = Some Medium \<and> cut (66 / 100) = Some Medium
   \<and> cut (67 / 100) = Some High \<and> cut 1 = Some High"
  using cut_partition [of 0] cut_partition [of "33 / 100"] cut_partition [of "1 / 2"]
    cut_partition [of "66 / 100"] cut_partition [of "67 / 100"] cut_partition [of 1]
  by simp

subsection \<open>Transitions\<close>


lemma shift_next_mem:
  "(r, nx) \<in> set (shift_next xs) \<longleftrightarrow>
     (\<exists>ys zs. xs = ys @ r # zs \<and> nx = find (\<lambda>n. customer_id n = customer_id r) zs)"
proof (induction xs)
  case Nil
  then show ?case by simp
next
  case (Cons a xs)
  show ?case
  proof
    assume "(r, nx) \<in> set (shift_next (a # xs))"
    then consider "r = a" "nx = find (\<lambda>n. customer_id n = customer_id r) xs"
      | "(r, nx) \<in> set (shift_next xs)" by auto
    then show "\<exists>ys zs. a # xs = ys @ r # zs \<and> nx = find (\<lambda>n. customer_id n = customer_id r) zs"
    proof cases
      case 1
      then have "a # xs = [] @ r # xs" by simp
      with 1 show ?thesis by blast
    next
      case 2
      with Cons.IH obtain ys zs where "xs = ys @ r # zs" "nx = find (\<lambda>n. customer_id n = customer_id r) zs"
        by blast
      then have "a # xs = (a # ys) @ r # zs" by simp
      with \<open>nx = _\<close> show ?thesis by blast
    qed
  next
    assume "\<exists>ys zs. a # xs = ys @ r # zs \<and> nx = find (\<lambda>n. customer_id n = customer_id r) zs"
    then obtain ys zs where e: "a # xs = ys @ r # zs" and nx: "nx = find (\<lambda>n. customer_id n = customer_id r) zs"
      by blast
    show "(r, nx) \<in> set (shift_next (a # xs))"
    proof (cases ys)
      case Nil
      with e nx show ?thesis by simp
    next
      case (Cons y ys')
      with e have "xs = ys' @ r # zs" by simp
      with nx Cons.IH have "(r, nx) \<in> set (shift_next xs)" by blast
      then show ?thesis by simp
    qed
  qed
qed

lemma find_split:
  "find P zs = Some n \<Longrightarrow> \<exists>us vs. zs = us @ n # vs \<and> P n \<and> (\<forall>u \<in> set us. \<not> P u)"
proof (induction zs)
  case Nil
  then show ?case by simp
next
  case (Cons z zs)
  show ?case
  proof (cases "P z")
    case True
    with Cons.prems have "z = n" by simp
    with True have "z # zs = [] @ n # zs \<and> P n \<and> (\<forall>u \<in> set []. \<not> P u)" by simp
    then show ?thesis by blast
  next
    case False
    with Cons obtain us vs where "zs = us @ n # vs" "P n" "\<forall>u \<in> set us. \<not> P u" by auto
    with False have "z # zs = (z # us) @ n # vs \<and> P n \<and> (\<forall>u \<in> set (z # us). \<not> P u)" by simp
    then show ?thesis by blast
  qed
qed



lemma transitions_mem:
  "(r, r') \<in> set (transitions df) \<longleftrightarrow>
     (r, Some r') \<in> set (shift_next (sort_values df)) \<and> month r' = month r + 1"
  by (auto simp: transitions_def split: option.splits if_splits)

lemma transitions_rows:
  assumes "(r, r') \<in> set (transitions df)"
  shows "r \<in> set df" and "r' \<in> set df" and "customer_id r' = customer_id r"
    and "month r' = month r + 1"
proof -
  from assms have sh: "(r, Some r') \<in> set (shift_next (sort_values df))"
    and m: "month r' = month r + 1" by (simp_all add: transitions_mem)
  from sh obtain ys zs where xs: "sort_values df = ys @ r # zs"
    and f: "find (\<lambda>n. customer_id n = customer_id r) zs = Some r'"
    by (auto simp: shift_next_mem)
  from find_split [OF f] have "r' \<in> set zs" and c: "customer_id r' = customer_id r" by auto
  have "set (sort_values df) = set df" by (simp add: sort_values_def)
  with xs \<open>r' \<in> set zs\<close> show "r \<in> set df" and "r' \<in> set df" by auto
  from c m show "customer_id r' = customer_id r" and "month r' = month r + 1" .
qed




lemma count_list_distinct: "distinct xs \<Longrightarrow> count_list xs x = (if x \<in> set xs then 1 else 0)"
  by (induction xs) auto


lemma loc_crosstab:
  "loc (crosstab a b) i j =
     (if i \<in> set a \<and> j \<in> set b then Some (count_list (zip a b) (i, j)) else None)"
  by (simp add: loc_def crosstab_def Let_def map_of_zip_map)

lemma count_zip_notin:
  "i \<notin> set a \<or> j \<notin> set b \<Longrightarrow> count_list (zip a b) (i, j) = 0"
  by (metis count_notin set_zip_leftD set_zip_rightD)

lemma cell_reindex_crosstab:
  "(case loc (crosstab a b) i j of None \<Rightarrow> 0 | Some v \<Rightarrow> v) = count_list (zip a b) (i, j)"
  using count_zip_notin [of i a j b] by (auto simp: loc_crosstab)

subsection \<open>The transition matrices\<close>

lemma sum_list_div: "sum_list (map (\<lambda>c. real c / t) r) = real (sum_list r) / t"
  by (induction r) (simp_all add: add_divide_distrib)

lemma row_probs_zero: "sum_list r = 0 \<Longrightarrow> row_probs r = replicate (length r) 0"
  by (simp add: row_probs_def cell2_def map_replicate_const)

lemma row_probs_sum: "sum_list r \<noteq> 0 \<Longrightarrow> sum_list (row_probs r) = 1"
  by (simp add: row_probs_def cell2_def sum_list_div)

lemma length_row_probs: "length (row_probs r) = length r"
  by (simp add: row_probs_def)

lemma max_next_le:
  assumes "transitions df \<noteq> []"
  shows "Max (set (map (\<lambda>t. cluster (snd t)) (transitions df))) \<le> Max (set (map cluster df))"
proof (rule Max_mono)
  show "set (map (\<lambda>t. cluster (snd t)) (transitions df)) \<subseteq> set (map cluster df)"
    using transitions_rows(2) by fastforce
  show "set (map (\<lambda>t. cluster (snd t)) (transitions df)) \<noteq> {}" using assms by simp
  show "finite (set (map cluster df))" by simp
qed

lemma compute_markov_Inr:
  assumes "compute_markov df = Inr (counts, probs)"
  shows "df \<noteq> []"
    and "counts = reindex (crosstab (map (\<lambda>t. cluster (fst t)) (transitions df))
                                     (map (\<lambda>t. cluster (snd t)) (transitions df)))
                    [0..Max (set (map cluster df))] [0..Max (set (map cluster df))] 0"
    and "probs = probs_of_counts counts"
proof -
  show ne: "df \<noteq> []"
    using assms by (auto simp: compute_markov_def series_max_int_def py_max_def Let_def)
  then obtain x xs where df: "df = x # xs" by (cases df) auto
  have a: "series_max_int (map cluster df) = Some (Max (set (map cluster df)))"
    using df by (simp add: series_max_int_def)
  have k: "py_max (series_max_int (map cluster df))
             (series_max_int (map (\<lambda>t. cluster (snd t)) (transitions df)))
           = Some (Max (set (map cluster df)))"
  proof (cases "transitions df")
    case Nil
    then show ?thesis using a by (simp add: py_max_def series_max_int_def)
  next
    case (Cons t ts)
    then have "transitions df \<noteq> []" by simp
    from max_next_le [OF this]
    have "\<not> Max (set (map (\<lambda>t. cluster (snd t)) (transitions df))) > Max (set (map cluster df))"
      by simp
    moreover have "series_max_int (map (\<lambda>t. cluster (snd t)) (transitions df))
       = Some (Max (set (map (\<lambda>t. cluster (snd t)) (transitions df))))"
      using Cons by (simp add: series_max_int_def)
    ultimately show ?thesis using a by (simp add: py_max_def)
  qed
  from assms k show "counts = reindex (crosstab (map (\<lambda>t. cluster (fst t)) (transitions df))
                                     (map (\<lambda>t. cluster (snd t)) (transitions df)))
                    [0..Max (set (map cluster df))] [0..Max (set (map cluster df))] 0"
    and "probs = probs_of_counts counts"
    by (auto simp: compute_markov_def Let_def)
qed


text \<open>
  C2. In the probability matrix that \<open>compute_markov\<close> returns, a row whose counts sum
  to zero is all zeros and every other row sums to 1 (exactly, in real arithmetic, hence
  within 1e-9); the counts 8, 2 / 1, 9 normalize to 0.8, 0.2 / 0.1, 0.9.
\<close>

theorem markov_rows_stochastic:
  assumes "compute_markov df = Inr (counts, probs)"
  shows "length (rows probs) = length (rows counts)
       \<and> (\<forall>i < length (rows counts).
            (sum_list (rows counts ! i) = 0 \<longrightarrow>
               rows probs ! i = replicate (length (rows counts ! i)) 0)
          \<and> (sum_list (rows counts ! i) \<noteq> 0 \<longrightarrow> sum_list (rows probs ! i) = 1))
       \<and> (\<forall>r \<in> set (rows probs). \<bar>sum_list r - 1\<bar> \<le> 1 / 10 ^ 9 \<or> (\<forall>p \<in> set r. p = 0))
       \<and> rows (probs_of_counts \<lparr>index = [0, 1 :: int], columns = [0, 1], rows = [[8, 2], [1, 9]]\<rparr>)
           = [[8 / 10, 2 / 10], [1 / 10, 9 / 10]]"
proof -
  have p: "rows probs = map row_probs (rows counts)"
    using compute_markov_Inr(3) [OF assms] by (simp add: probs_of_counts_def)
  have 1: "length (rows probs) = length (rows counts)" using p by simp
  have 2: "\<forall>i < length (rows counts).
            (sum_list (rows counts ! i) = 0 \<longrightarrow>
               rows probs ! i = replicate (length (rows counts ! i)) 0)
          \<and> (sum_list (rows counts ! i) \<noteq> 0 \<longrightarrow> sum_list (rows probs ! i) = 1)"
    using p by (simp add: row_probs_zero row_probs_sum)
  have 3: "\<forall>r \<in> set (rows probs). \<bar>sum_list r - 1\<bar> \<le> 1 / 10 ^ 9 \<or> (\<forall>p \<in> set r. p = 0)"
  proof
    fix r assume "r \<in> set (rows probs)"
    with p obtain c where r: "r = row_probs c" by auto
    show "\<bar>sum_list r - 1\<bar> \<le> 1 / 10 ^ 9 \<or> (\<forall>p \<in> set r. p = 0)"
    proof (cases "sum_list c = 0")
      case True
      then show ?thesis using r by (simp add: row_probs_zero)
    next
      case False
      then show ?thesis using r by (simp add: row_probs_sum)
    qed
  qed
  have 4: "rows (probs_of_counts \<lparr>index = [0, 1 :: int], columns = [0, 1], rows = [[8, 2], [1, 9]]\<rparr>)
           = [[8 / 10, 2 / 10], [1 / 10, 9 / 10]]"
    by (simp add: probs_of_counts_def row_probs_def cell2_def)
  from 1 2 3 4 show ?thesis by blast
qed

theorem markov_rows_stochastic_witness:
  "compute_markov df21 =
     Inr (\<lparr>index = [0, 1], columns = [0, 1], rows = [[8, 2], [1, 9]]\<rparr>,
          \<lparr>index = [0, 1], columns = [0, 1], rows = [[8 / 10, 2 / 10], [1 / 10, 9 / 10]]\<rparr>)
   \<and> sum_list [8 / 10, 2 / 10 :: real] = 1 \<and> sum_list [1 / 10, 9 / 10 :: real] = 1
   \<and> compute_markov df_gap =
     Inr (\<lparr>index = [0, 1], columns = [0, 1], rows = [[1, 1], [0, 0]]\<rparr>,
          \<lparr>index = [0, 1], columns = [0, 1], rows = [[1 / 2, 1 / 2], [0, 0]]\<rparr>)
   \<and> sum_list [0, 0 :: nat] = 0"
proof -
  have a: "compute_markov df21 =
     Inr (\<lparr>index = [0, 1], columns = [0, 1], rows = [[8, 2], [1, 9]]\<rparr>,
          \<lparr>index = [0, 1], columns = [0, 1], rows = [[8 / 10, 2 / 10], [1 / 10, 9 / 10]]\<rparr>)"
    by code_simp
  have b: "compute_markov df_gap =
     Inr (\<lparr>index = [0, 1], columns = [0, 1], rows = [[1, 1], [0, 0]]\<rparr>,
          \<lparr>index = [0, 1], columns = [0, 1], rows = [[1 / 2, 1 / 2], [0, 0]]\<rparr>)"
    by code_simp
  show ?thesis
    using markov_rows_stochastic [OF a] markov_rows_stochastic [OF b] a b by simp
qed

text \<open>
  What \<open>compute_markov\<close> returns: matrices indexed by the states 0..K, where K is the
  largest cluster id in the monthly table; they are square of that size, and a state in
  0..K that no transition starts from has an all-zero row of counts and of probabilities.
\<close>

lemma compute_markov_state_space:
  assumes "compute_markov df = Inr (counts, probs)"
  shows "\<exists>K. series_max_int (map cluster df) = Some K
       \<and> index counts = [0..K] \<and> columns counts = [0..K]
       \<and> index probs = [0..K] \<and> columns probs = [0..K]
       \<and> length (rows counts) = length [0..K] \<and> length (rows probs) = length [0..K]
       \<and> (\<forall>r \<in> set (rows counts). length r = length [0..K])
       \<and> (\<forall>r \<in> set (rows probs). length r = length [0..K])
       \<and> (\<forall>i \<in> set [0..K]. i \<notin> set (map (\<lambda>t. cluster (fst t)) (transitions df)) \<longrightarrow>
             rows counts ! nat i = replicate (length [0..K]) 0
           \<and> rows probs ! nat i = replicate (length [0..K]) 0)"
proof -
  define K where "K = Max (set (map cluster df))"
  define a where "a = map (\<lambda>t. cluster (fst t)) (transitions df)"
  define b where "b = map (\<lambda>t. cluster (snd t)) (transitions df)"
  note r = compute_markov_Inr [OF assms]
  have c: "counts = reindex (crosstab a b) [0..K] [0..K] 0"
    using r(2) by (simp add: K_def a_def b_def)
  have p: "probs = probs_of_counts counts" by (rule r(3))
  have k: "series_max_int (map cluster df) = Some K"
    using r(1) by (cases df) (simp_all add: series_max_int_def K_def)
  have rc: "rows counts = map (\<lambda>i. map (\<lambda>j. count_list (zip a b) (i, j)) [0..K]) [0..K]"
    by (simp add: c reindex_def cell_reindex_crosstab)
  have rp: "rows probs = map row_probs (rows counts)" by (simp add: p probs_of_counts_def)
  have z: "\<forall>i \<in> set [0..K]. i \<notin> set a \<longrightarrow>
             rows counts ! nat i = replicate (length [0..K]) 0
           \<and> rows probs ! nat i = replicate (length [0..K]) 0"
  proof (intro ballI impI)
    fix i assume i: "i \<in> set [0..K]" and na: "i \<notin> set a"
    then have i0: "0 \<le> i" "i \<le> K" by simp_all
    then have li: "nat i < length [0..K]" and ni: "[0..K] ! nat i = i" by (simp_all add: nth_upto)
    have "rows counts ! nat i = map (\<lambda>j. count_list (zip a b) (i, j)) [0..K]"
      using li ni by (simp add: rc)
    also have "\<dots> = map (\<lambda>j. 0) [0..K]" using na by (simp add: count_zip_notin)
    finally have rci: "rows counts ! nat i = replicate (length [0..K]) 0"
      by (simp add: map_replicate_const)
    have "rows probs ! nat i = row_probs (rows counts ! nat i)"
      using li by (simp add: rp rc)
    with rci have "rows probs ! nat i = replicate (length [0..K]) 0"
      by (simp add: row_probs_zero)
    with rci show "rows counts ! nat i = replicate (length [0..K]) 0
           \<and> rows probs ! nat i = replicate (length [0..K]) 0" by simp
  qed
  have 1: "index counts = [0..K] \<and> columns counts = [0..K]" by (simp add: c reindex_def)
  have 2: "index probs = [0..K] \<and> columns probs = [0..K]" by (simp add: p probs_of_counts_def 1)
  have 3: "length (rows counts) = length [0..K] \<and> length (rows probs) = length [0..K]"
    by (simp add: rp rc)
  have 4: "\<forall>r \<in> set (rows counts). length r = length [0..K]" by (auto simp: rc)
  have 5: "\<forall>r \<in> set (rows probs). length r = length [0..K]"
    using 4 by (auto simp: rp length_row_probs)
  from k 1 2 3 4 5 z show ?thesis unfolding a_def by blast
qed

text \<open>
  C4. \<open>main\<close> fits the clustering for k = 4 states and the source means the matrices to
  cover the complete state space 0..k-1 (its comment: "garantir estados completos 0..k-1"),
  but \<open>compute_markov\<close> takes k from the largest cluster id in the table. A monthly table
  that reaches only the clusters 0 and 1 gives 2 x 2 matrices, indexed by 0 and 1: the
  states 2 and 3 have no row and no column.
\<close>

theorem markov_state_space_defect:
  "series_max_int (map cluster df_gap) = Some 1
   \<and> compute_markov df_gap =
     Inr (\<lparr>index = [0, 1], columns = [0, 1], rows = [[1, 1], [0, 0]]\<rparr>,
          \<lparr>index = [0, 1], columns = [0, 1], rows = [[1 / 2, 1 / 2], [0, 0]]\<rparr>)
   \<and> [0, 1] \<noteq> [0..n_clusters - 1]
   \<and> [0..n_clusters - 1] = [0, 1, 2, 3]"
  by code_simp




subsection \<open>Cluster labels\<close>

lemma rank_one: "i < length s \<Longrightarrow> rank_dense_desc s ! i = 1 \<longleftrightarrow> is_top s (s ! i)"
  by (auto simp: rank_dense_desc_def is_top_def filter_empty_conv not_less)

text \<open>
  C8. The label of every cluster is the first match of the cascade over the "top"
  predicates (dense rank 1, descending): top late-payment rate and top transaction count,
  else top income, else top transaction count, else the default. A cluster ranked first on
  late-payment rate and on transaction count gets the high-risk digital-intensive label
  whatever the income ranks are.
\<close>

theorem cascade_first_match:
  assumes "i < length summary2"
  shows "cluster_name_map summary2 ! i =
           (s_cluster (summary2 ! i),
            cascade_spec (is_top (map late_payment_rate summary2) (late_payment_rate (summary2 ! i)))
                         (is_top (map income summary2) (income (summary2 ! i)))
                         (is_top (map mean_pix summary2) (mean_pix (summary2 ! i))))
       \<and> (rank_dense_desc (map late_payment_rate summary2) ! i = 1
            \<and> rank_dense_desc (map mean_pix summary2) ! i = 1
          \<longrightarrow> snd (cluster_name_map summary2 ! i) = Digital_Credito_Intensivo)"
  using assms rank_one [of i "map late_payment_rate summary2"]
    rank_one [of i "map income summary2"] rank_one [of i "map mean_pix summary2"]
  by (simp add: cluster_name_map_def cascade_spec_def Let_def)

theorem cascade_first_match_witness:
  "(0::nat) < length summary_demo
   \<and> rank_dense_desc (map late_payment_rate summary_demo) = [1, 3, 2, 2]
   \<and> rank_dense_desc (map income summary_demo) = [3, 1, 2, 4]
   \<and> rank_dense_desc (map mean_pix summary_demo) = [1, 3, 1, 2]
   \<and> cluster_name_map summary_demo =
       [(0, Digital_Credito_Intensivo), (1, Alta_Renda_Estavel), (2, Digital_Estavel),
        (3, Conservador_Tradicional)]"
proof -
  have l: "(0::nat) < length summary_demo" by code_simp
  have r: "rank_dense_desc (map late_payment_rate summary_demo) = [1, 3, 2, 2]
   \<and> rank_dense_desc (map income summary_demo) = [3, 1, 2, 4]
   \<and> rank_dense_desc (map mean_pix summary_demo) = [1, 3, 1, 2]" by code_simp
  have c: "cluster_name_map summary_demo =
       [(0, Digital_Credito_Intensivo), (1, Alta_Renda_Estavel), (2, Digital_Estavel),
        (3, Conservador_Tradicional)]" by code_simp
  show ?thesis using cascade_first_match [OF l] l r c by simp
qed

subsection \<open>The model of TransitionEstimator, and the loads of ScoreFusion\<close>

text \<open>
  C5. With no model files and the feature table that FeatureAggregator writes,
  \<open>load_or_train_kmeans\<close> does not reach the fit: it selects six columns with the prefix
  \<open>m12_\<close> that the table does not have, and raises KeyError. ClusterProfiler selects its
  columns from the same table without the prefix.
\<close>

theorem fresh_fit_key_error:
  "build_features files_raw = Inr files_features
   \<and> scaler_pkl files_features = False \<and> kmeans_pkl files_features = False
   \<and> load_or_train_kmeans True files_features =
       Inl (KeyError [''m12_mean_balance'', ''m12_std_balance'', ''m12_mean_card_spend'',
                      ''m12_mean_utilization'', ''m12_mean_pix'', ''m12_late_payment_rate''])
   \<and> load_or_train_kmeans False files_features =
       Inl (KeyError [''m12_mean_balance'', ''m12_std_balance'', ''m12_mean_card_spend'',
                      ''m12_mean_utilization'', ''m12_mean_pix'', ''m12_late_payment_rate''])
   \<and> markov_model True files_features =
       Inl (KeyError [''m12_mean_balance'', ''m12_std_balance'', ''m12_mean_card_spend'',
                      ''m12_mean_utilization'', ''m12_mean_pix'', ''m12_late_payment_rate''])
   \<and> cluster_profiles_features files_features = Inr feature_cols"
  by code_simp

lemma main_no_base:
  assumes "features_named fs = None" "features_clustered fs = None"
  shows "main fs = Inl (FileNotFoundError
                 (''Missing clustered features. Run:'' @ [CHR 0x0A] @
                  ''- python -m src.build_features'' @ [CHR 0x0A] @
                  ''- python -m src.cluster_profiles''))"
  using assms by (simp add: main_def load_base_def)

lemma load_prop_absent: "propensity_scores fs = None \<Longrightarrow> isl (load_prop fs)"
  by (simp add: load_prop_def)

lemma load_surv_absent:
  "survival_probabilities fs = None \<or> survival_expected_time fs = None \<Longrightarrow> isl (load_surv fs)"
  by (auto simp: load_surv_def split: option.splits)

lemma load_markov_absent: "markov_transition_matrix fs = None \<Longrightarrow> isl (load_markov_matrix fs)"
  by (simp add: load_markov_matrix_def)

lemma main_load_fails:
  "isl (load_base fs) \<or> isl (load_prop fs) \<or> isl (load_surv fs) \<or> isl (load_markov_matrix fs)
   \<Longrightarrow> isl (main fs)"
  by (auto simp: main_def split: sum.splits)

lemma main_prop_absent:
  assumes "load_base fs = Inr b" "propensity_scores fs = None"
  shows "\<exists>m. main fs = Inl (FileNotFoundError m)"
  using assms by (simp add: main_def load_prop_def)

lemma main_surv_absent:
  assumes "load_base fs = Inr b" "load_prop fs = Inr p"
    "survival_probabilities fs = None \<or> survival_expected_time fs = None"
  shows "\<exists>m. main fs = Inl (FileNotFoundError m)"
  using assms by (auto simp: main_def load_surv_def split: option.splits)

lemma main_matrix_absent:
  assumes "load_base fs = Inr b" "load_prop fs = Inr p" "load_surv fs = Inr s"
    "markov_transition_matrix fs = None"
  shows "\<exists>m. main fs = Inl (FileNotFoundError m)"
  using assms by (auto simp: main_def load_markov_matrix_def split: prod.splits)

subsection \<open>The transition-risk lookup\<close>

lemma apply_series_Inr: "apply_series f xs = Inr ys \<Longrightarrow> map f xs = map Inr ys"
  by (induction xs arbitrary: ys) (auto split: sum.splits)

lemma apply_series_total:
  "(\<forall>x \<in> set xs. \<exists>y. f x = Inr y) \<Longrightarrow> \<exists>ys. apply_series f xs = Inr ys"
  by (induction xs) (auto split: sum.splits)

lemma float_loc_distinct: "distinct (index M) \<Longrightarrow> \<exists>v. float_loc M r c = Inr v"
proof -
  assume "distinct (index M)"
  then have "count_list (index M) r \<le> 1" by (simp add: count_list_distinct)
  then show ?thesis by (simp add: float_loc_def)
qed

lemma transition_to_risk_total:
  "distinct (index M) \<Longrightarrow> \<exists>v. transition_to_risk M rid c = Inr v"
  using float_loc_distinct [of M]
  by (simp add: transition_to_risk_def Let_def split: option.splits)

lemma transition_named_total:
  "distinct (index M) \<Longrightarrow> \<exists>v. transition_named M nm = Inr v"
  using float_loc_distinct [of M]
  by (simp add: transition_named_def split: option.splits)

lemma apply_numeric_not_Inl:
  "distinct (index M) \<Longrightarrow> apply_series (transition_to_risk M rid) xs \<noteq> Inl e"
  using apply_series_total [of xs "transition_to_risk M rid"] transition_to_risk_total [of M rid]
  by auto

lemma apply_named_not_Inl:
  "distinct (index M) \<Longrightarrow> apply_series (transition_named M) xs \<noteq> Inl e"
  using apply_series_total [of xs "transition_named M"] transition_named_total [of M]
  by auto

lemma risk_lookup_total:
  assumes "distinct (index M)"
  shows "\<exists>base. risk_lookup M rid full = Inr base"
  using assms
  by (auto simp: risk_lookup_def Let_def apply_named_not_Inl apply_numeric_not_Inl
           split: sum.splits)

lemma concat_map_single: "(\<forall>x \<in> set xs. g x = [h x]) \<Longrightarrow> concat (map g xs) = map h xs"
  by (induction xs) auto

lemma filter_key_distinct:
  "distinct (map f xs) \<Longrightarrow> x \<in> set xs \<Longrightarrow> filter (\<lambda>y. f y = f x) xs = [x]"
proof (induction xs)
  case Nil
  then show ?case by simp
next
  case (Cons a xs)
  show ?case
  proof (cases "a = x")
    case True
    with Cons.prems have "f x \<notin> f ` set xs" by simp
    then have "\<forall>y \<in> set xs. f y \<noteq> f x" by (metis image_eqI)
    then have "filter (\<lambda>y. f y = f x) xs = []" by (simp add: filter_empty_conv)
    with True show ?thesis by simp
  next
    case False
    with Cons.prems have "x \<in> set xs" "f a \<noteq> f x" by auto
    with Cons show ?thesis by simp
  qed
qed

lemma merge_left_self:
  assumes "distinct (map k rs)"
  shows "merge_left fst (map (\<lambda>r. (k r, c r)) rs) (map (\<lambda>r. (k r, n r)) rs)
         = map (\<lambda>r. ((k r, c r), Some (n r))) rs"
proof -
  have "\<And>r. r \<in> set rs \<Longrightarrow>
          filter (\<lambda>t. fst t = k r) (map (\<lambda>r. (k r, n r)) rs) = [(k r, n r)]"
  proof -
    fix r assume r: "r \<in> set rs"
    have "filter (\<lambda>t. fst t = k r) (map (\<lambda>r. (k r, n r)) rs)
          = map (\<lambda>r. (k r, n r)) (filter (\<lambda>y. k y = k r) rs)"
      by (simp add: filter_map comp_def)
    also have "\<dots> = [(k r, n r)]" using filter_key_distinct [OF assms r] by simp
    finally show "filter (\<lambda>t. fst t = k r) (map (\<lambda>r. (k r, n r)) rs) = [(k r, n r)]" .
  qed
  then have "\<forall>r \<in> set rs.
          (case filter (\<lambda>t. fst t = fst (k r, c r)) (map (\<lambda>r. (k r, n r)) rs) of
                         [] \<Rightarrow> [((k r, c r), None)]
                       | ms \<Rightarrow> map (\<lambda>t. ((k r, c r), Some (snd t))) ms)
           = [((k r, c r), Some (n r))]"
    by simp
  then show ?thesis
    unfolding merge_left_def map_map comp_def by (rule concat_map_single)
qed

lemma map_Inr_nth:
  assumes "map f xs = map Inr ps" "i < length xs"
  shows "f (xs ! i) = Inr (ps ! i)" and "length ps = length xs"
proof -
  from assms(1) have l: "length xs = length ps" by (metis length_map)
  then show "length ps = length xs" by simp
  from assms l have "map f xs ! i = map Inr ps ! i" by simp
  with assms(2) l show "f (xs ! i) = Inr (ps ! i)" by simp
qed

lemma risk_lookup_numeric:
  assumes ok: "risk_lookup M rid full = Inr base"
    and br: "(\<exists>r \<in> set (base_rows full). transition_to_risk M rid (b_cluster r) \<noteq> Inr None)
             \<or> risk_state_name \<notin> set (columns M)
             \<or> ''cluster_name'' \<notin> set (base_columns full)"
  shows "fill_risk base =
           map (\<lambda>r. (b_customer_id r, b_cluster r,
                      case transition_to_risk M rid (b_cluster r) of
                        Inr (Some v) \<Rightarrow> v | _ \<Rightarrow> 0)) (base_rows full)"
proof -
  let ?rs = "base_rows full"
  let ?b = "map (\<lambda>r. (b_customer_id r, b_cluster r)) ?rs"
  from ok obtain ps where ps: "apply_series (transition_to_risk M rid) (map snd ?b) = Inr ps"
    by (auto simp: risk_lookup_def Let_def split: sum.splits)
  from apply_series_Inr [OF ps]
  have m: "map (\<lambda>r. transition_to_risk M rid (b_cluster r)) ?rs = map Inr ps"
    by (simp add: comp_def)
  have len: "length ps = length ?rs" using m by (metis length_map)
  have nth: "\<And>i. i < length ?rs \<Longrightarrow> transition_to_risk M rid (b_cluster (?rs ! i)) = Inr (ps ! i)"
    using map_Inr_nth(1) [OF m] by simp
  have "\<not> ((\<forall>v \<in> set ps. v = None) \<and> risk_state_name \<in> set (columns M)
            \<and> ''cluster_name'' \<in> set (base_columns full))"
  proof
    assume a: "(\<forall>v \<in> set ps. v = None) \<and> risk_state_name \<in> set (columns M)
            \<and> ''cluster_name'' \<in> set (base_columns full)"
    with br obtain r where r: "r \<in> set ?rs" "transition_to_risk M rid (b_cluster r) \<noteq> Inr None"
      by auto
    then obtain i where i: "i < length ?rs" "?rs ! i = r" by (auto simp: in_set_conv_nth)
    with nth [of i] r(2) have "ps ! i \<noteq> None" by auto
    moreover have "ps ! i \<in> set ps" using i len by simp
    ultimately show False using a by auto
  qed
  with ok ps have base: "base = map (\<lambda>(b, v). (fst b, snd b, v)) (zip ?b ps)"
    by (auto simp: risk_lookup_def Let_def split: if_splits)
  show ?thesis
  proof (rule nth_equalityI)
    show "length (fill_risk base) = length (map (\<lambda>r. (b_customer_id r, b_cluster r,
                      case transition_to_risk M rid (b_cluster r) of
                        Inr (Some v) \<Rightarrow> v | _ \<Rightarrow> 0)) ?rs)"
      by (simp add: fill_risk_def base len)
  next
    fix i assume "i < length (fill_risk base)"
    then have i: "i < length ?rs" by (simp add: fill_risk_def base len)
    then show "fill_risk base ! i = map (\<lambda>r. (b_customer_id r, b_cluster r,
                      case transition_to_risk M rid (b_cluster r) of
                        Inr (Some v) \<Rightarrow> v | _ \<Rightarrow> 0)) ?rs ! i"
      using nth [OF i] len by (simp add: fill_risk_def base split: option.splits)
  qed
qed

lemma risk_lookup_named:
  assumes ok: "risk_lookup M rid full = Inr base"
    and un: "\<forall>r \<in> set (base_rows full). transition_to_risk M rid (b_cluster r) = Inr None"
    and low: "risk_state_name \<in> set (columns M)"
    and cn: "''cluster_name'' \<in> set (base_columns full)"
    and ids: "distinct (map b_customer_id (base_rows full))"
  shows "fill_risk base =
           map (\<lambda>r. (b_customer_id r, b_cluster r,
                      case transition_named M (b_cluster_name r) of
                        Inr (Some v) \<Rightarrow> v | _ \<Rightarrow> 0)) (base_rows full)"
proof -
  let ?rs = "base_rows full"
  let ?b = "map (\<lambda>r. (b_customer_id r, b_cluster r)) ?rs"
  let ?t = "map (\<lambda>r. (b_customer_id r, b_cluster_name r)) ?rs"
  from ok obtain ps where ps: "apply_series (transition_to_risk M rid) (map snd ?b) = Inr ps"
    by (auto simp: risk_lookup_def Let_def split: sum.splits)
  from apply_series_Inr [OF ps]
  have m: "map (\<lambda>r. transition_to_risk M rid (b_cluster r)) ?rs = map Inr ps"
    by (simp add: comp_def)
  have len: "length ps = length ?rs" using m by (metis length_map)
  have "\<forall>v \<in> set ps. v = None"
  proof
    fix v assume "v \<in> set ps"
    then obtain i where i: "i < length ps" "ps ! i = v" by (auto simp: in_set_conv_nth)
    with len map_Inr_nth(1) [OF m, of i]
    have "transition_to_risk M rid (b_cluster (?rs ! i)) = Inr v" by simp
    moreover have "?rs ! i \<in> set ?rs" using i len by simp
    ultimately show "v = None" using un by auto
  qed
  moreover have mg: "merge_left fst ?b ?t = map (\<lambda>r. ((b_customer_id r, b_cluster r), Some (b_cluster_name r))) ?rs"
    using ids by (rule merge_left_self)
  ultimately obtain named where
    nm: "apply_series (transition_named M) (map b_cluster_name ?rs) = Inr named"
    and base: "base = map (\<lambda>((b, nm), v). (fst b, snd b, v))
                 (zip (map (\<lambda>r. ((b_customer_id r, b_cluster r), Some (b_cluster_name r))) ?rs) named)"
    using ok ps low cn
    by (auto simp: risk_lookup_def Let_def comp_def split: sum.splits)
  from apply_series_Inr [OF nm]
  have m2: "map (\<lambda>r. transition_named M (b_cluster_name r)) ?rs = map Inr named"
    by (simp add: comp_def)
  have len2: "length named = length ?rs" using m2 by (metis length_map)
  have nth: "\<And>i. i < length ?rs \<Longrightarrow> transition_named M (b_cluster_name (?rs ! i)) = Inr (named ! i)"
    using map_Inr_nth(1) [OF m2] by simp
  show ?thesis
  proof (rule nth_equalityI)
    show "length (fill_risk base) = length (map (\<lambda>r. (b_customer_id r, b_cluster r,
                      case transition_named M (b_cluster_name r) of
                        Inr (Some v) \<Rightarrow> v | _ \<Rightarrow> 0)) ?rs)"
      by (simp add: fill_risk_def base len2)
  next
    fix i assume "i < length (fill_risk base)"
    then have i: "i < length ?rs" by (simp add: fill_risk_def base len2)
    then show "fill_risk base ! i = map (\<lambda>r. (b_customer_id r, b_cluster r,
                      case transition_named M (b_cluster_name r) of
                        Inr (Some v) \<Rightarrow> v | _ \<Rightarrow> 0)) ?rs ! i"
      using nth [OF i] len2 by (simp add: fill_risk_def base split: option.splits)
  qed
qed

lemma main_Inl:
  assumes "main fs = Inl e"
  shows "load_base fs = Inl e \<or> load_prop fs = Inl e \<or> load_surv fs = Inl e
       \<or> load_markov_matrix fs = Inl e \<or> find_risk_cluster_id fs = Inl e
       \<or> (\<exists>M rid full. load_markov_matrix fs = Inr M \<and> find_risk_cluster_id fs = Inr rid
             \<and> load_base fs = Inr full \<and> risk_lookup M rid full = Inl e)"
  using assms by (auto simp: main_def split: sum.splits prod.splits)

lemma risk_lookup_Inl:
  assumes "risk_lookup M rid full = Inl e"
  shows "\<not> distinct (index M)"
  using assms risk_lookup_total [of M rid full] by auto

text \<open>
  C7, as amended. A lookup by cluster id that finds no row or column gives NaN without
  raising, and so does a lookup by name. With distinct row labels in the matrix the lookup
  of the whole table does not raise. If the lookup by cluster id resolves for some customer
  (or the matrix has no column \<open>Low\<close>, or the base table no \<open>cluster_name\<close>), every
  customer gets the value found by cluster id, else 0; the name path is taken only when no
  customer at all was resolved by cluster id, and then every customer gets the value found
  by name, else 0. \<open>main\<close> fails only when a load fails or the matrix has a repeated row
  label.
\<close>

theorem unresolved_lookup_degrades:
  "(rid = None \<or> str c \<notin> set (index M) \<or> (\<exists>k. rid = Some k \<and> str k \<notin> set (columns M))
      \<longrightarrow> transition_to_risk M rid c = Inr None)
   \<and> (nm = None \<or> (\<exists>s. nm = Some s \<and> s \<notin> set (index M)) \<or> risk_state_name \<notin> set (columns M)
      \<longrightarrow> transition_named M nm = Inr None)
   \<and> (distinct (index M) \<longrightarrow> (\<exists>base. risk_lookup M rid full = Inr base))
   \<and> (\<forall>base. risk_lookup M rid full = Inr base \<longrightarrow>
        ((\<exists>r \<in> set (base_rows full). transition_to_risk M rid (b_cluster r) \<noteq> Inr None)
           \<or> risk_state_name \<notin> set (columns M)
           \<or> ''cluster_name'' \<notin> set (base_columns full)
         \<longrightarrow> fill_risk base =
               map (\<lambda>r. (b_customer_id r, b_cluster r,
                          case transition_to_risk M rid (b_cluster r) of
                            Inr (Some v) \<Rightarrow> v | _ \<Rightarrow> 0)) (base_rows full))
      \<and> ((\<forall>r \<in> set (base_rows full). transition_to_risk M rid (b_cluster r) = Inr None)
           \<and> risk_state_name \<in> set (columns M)
           \<and> ''cluster_name'' \<in> set (base_columns full)
           \<and> distinct (map b_customer_id (base_rows full))
         \<longrightarrow> fill_risk base =
               map (\<lambda>r. (b_customer_id r, b_cluster r,
                          case transition_named M (b_cluster_name r) of
                            Inr (Some v) \<Rightarrow> v | _ \<Rightarrow> 0)) (base_rows full)))
   \<and> (\<forall>e. main fs = Inl e \<longrightarrow>
         load_base fs = Inl e \<or> load_prop fs = Inl e \<or> load_surv fs = Inl e
       \<or> load_markov_matrix fs = Inl e \<or> find_risk_cluster_id fs = Inl e
       \<or> (\<exists>M'. load_markov_matrix fs = Inr M' \<and> \<not> distinct (index M')))"
proof (intro conjI)
  show "rid = None \<or> str c \<notin> set (index M) \<or> (\<exists>k. rid = Some k \<and> str k \<notin> set (columns M))
      \<longrightarrow> transition_to_risk M rid c = Inr None"
    by (auto simp: transition_to_risk_def Let_def split: option.splits)
next
  show "nm = None \<or> (\<exists>s. nm = Some s \<and> s \<notin> set (index M)) \<or> risk_state_name \<notin> set (columns M)
      \<longrightarrow> transition_named M nm = Inr None"
    by (auto simp: transition_named_def split: option.splits)
next
  show "distinct (index M) \<longrightarrow> (\<exists>base. risk_lookup M rid full = Inr base)"
    using risk_lookup_total by blast
next
  show "\<forall>base. risk_lookup M rid full = Inr base \<longrightarrow>
        ((\<exists>r \<in> set (base_rows full). transition_to_risk M rid (b_cluster r) \<noteq> Inr None)
           \<or> risk_state_name \<notin> set (columns M)
           \<or> ''cluster_name'' \<notin> set (base_columns full)
         \<longrightarrow> fill_risk base =
               map (\<lambda>r. (b_customer_id r, b_cluster r,
                          case transition_to_risk M rid (b_cluster r) of
                            Inr (Some v) \<Rightarrow> v | _ \<Rightarrow> 0)) (base_rows full))
      \<and> ((\<forall>r \<in> set (base_rows full). transition_to_risk M rid (b_cluster r) = Inr None)
           \<and> risk_state_name \<in> set (columns M)
           \<and> ''cluster_name'' \<in> set (base_columns full)
           \<and> distinct (map b_customer_id (base_rows full))
         \<longrightarrow> fill_risk base =
               map (\<lambda>r. (b_customer_id r, b_cluster r,
                          case transition_named M (b_cluster_name r) of
                            Inr (Some v) \<Rightarrow> v | _ \<Rightarrow> 0)) (base_rows full))"
    using risk_lookup_numeric [of M rid full] risk_lookup_named [of M rid full] by blast
next
  show "\<forall>e. main fs = Inl e \<longrightarrow>
         load_base fs = Inl e \<or> load_prop fs = Inl e \<or> load_surv fs = Inl e
       \<or> load_markov_matrix fs = Inl e \<or> find_risk_cluster_id fs = Inl e
       \<or> (\<exists>M'. load_markov_matrix fs = Inr M' \<and> \<not> distinct (index M'))"
    using main_Inl [of fs] risk_lookup_Inl by blast
qed

theorem unresolved_lookup_degrades_witness:
  "str 7 \<notin> set (index matrix_demo)
   \<and> transition_to_risk matrix_demo (Some 1) 7 = Inr None
   \<and> ''A'' \<notin> set (index matrix_demo)
   \<and> transition_named matrix_demo (Some ''A'') = Inr None
   \<and> distinct (index matrix_demo)
   \<and> risk_lookup matrix_demo (Some 1) base_demo =
       Inr [(1, 0, Some 0), (2, 1, Some 1), (3, 2, Some (4 / 10))]
   \<and> transition_to_risk matrix_demo (Some 1) 1 = Inr (Some 1)
   \<and> fill_risk [(1, 0, Some 0), (2, 1, Some 1), (3, 2, Some (4 / 10))] =
       [(1, 0, 0), (2, 1, 1), (3, 2, 4 / 10)]
   \<and> map (\<lambda>r. transition_to_risk matrix_named (Some 1) (b_cluster r)) (base_rows base_demo)
       = [Inr None, Inr None, Inr None]
   \<and> risk_state_name \<in> set (columns matrix_named)
   \<and> ''cluster_name'' \<in> set (base_columns base_demo)
   \<and> distinct (map b_customer_id (base_rows base_demo))
   \<and> risk_lookup matrix_named (Some 1) base_demo =
       Inr [(1, 0, Some (1 / 10)), (2, 1, Some (7 / 10)), (3, 2, None)]
   \<and> fill_risk [(1, 0, Some (1 / 10)), (2, 1, Some (7 / 10)), (3, 2, None)] =
       [(1, 0, 1 / 10), (2, 1, 7 / 10), (3, 2, 0)]
   \<and> isl (main files_none) \<and> isl (load_base files_none)"
proof -
  have a: "str 7 \<notin> set (index matrix_demo)
     \<and> transition_to_risk matrix_demo (Some 1) 7 = Inr None
     \<and> ''A'' \<notin> set (index matrix_demo)
     \<and> transition_named matrix_demo (Some ''A'') = Inr None
     \<and> distinct (index matrix_demo)" by code_simp
  have b: "risk_lookup matrix_demo (Some 1) base_demo =
       Inr [(1, 0, Some 0), (2, 1, Some 1), (3, 2, Some (4 / 10))]
     \<and> transition_to_risk matrix_demo (Some 1) 1 = Inr (Some 1)
     \<and> fill_risk [(1, 0, Some 0), (2, 1, Some 1), (3, 2, Some (4 / 10))] =
       [(1, 0, 0), (2, 1, 1), (3, 2, 4 / 10)]" by code_simp
  have c: "map (\<lambda>r. transition_to_risk matrix_named (Some 1) (b_cluster r)) (base_rows base_demo)
       = [Inr None, Inr None, Inr None]
     \<and> risk_state_name \<in> set (columns matrix_named)
     \<and> ''cluster_name'' \<in> set (base_columns base_demo)
     \<and> distinct (map b_customer_id (base_rows base_demo))" by code_simp
  have d: "risk_lookup matrix_named (Some 1) base_demo =
       Inr [(1, 0, Some (1 / 10)), (2, 1, Some (7 / 10)), (3, 2, None)]
     \<and> fill_risk [(1, 0, Some (1 / 10)), (2, 1, Some (7 / 10)), (3, 2, None)] =
       [(1, 0, 1 / 10), (2, 1, 7 / 10), (3, 2, 0)]" by code_simp
  have e: "isl (main files_none) \<and> isl (load_base files_none)" by code_simp
  show ?thesis
    using unresolved_lookup_degrades [of "Some 1" 7 matrix_demo "Some ''A''" base_demo files_none]
      unresolved_lookup_degrades [of "Some 1" 7 matrix_named None base_demo files_none]
      a b c d e
    by simp
qed

text \<open>
  C7 as stated fails: customer 2 is not resolved by cluster id, the name path would give
  0.8, and the run gives 0 because customer 1 was resolved by cluster id.
\<close>

theorem lookup_chain_counterexample:
  "main files_mixed =
       Inr [\<lparr>customer = 1, current_cluster = 0, p_next_risk = Some (3 / 10), propensity = Some 0,
             p_adopt_3m = Some (1 / 10), expected_time_months = Some 1,
             final_score = Some (32 / 100), priority = Some Low\<rparr>,
            \<lparr>customer = 2, current_cluster = 5, p_next_risk = Some 0, propensity = Some 1,
             p_adopt_3m = Some (9 / 10), expected_time_months = Some 12,
             final_score = Some (68 / 100), priority = Some High\<rparr>]
   \<and> find_risk_cluster_id files_mixed = Inr (Some 0)
   \<and> transition_to_risk matrix_mixed (Some 0) 5 = Inr None
   \<and> transition_named matrix_mixed (Some ''B'') = Inr (Some (8 / 10))
   \<and> lookup_chain_spec matrix_mixed (Some 0) 5 (Some ''B'') = 8 / 10"
  by code_simp

subsection \<open>Required inputs\<close>

lemma transition_to_risk_None: "transition_to_risk M None c = Inr None"
  by (simp add: transition_to_risk_def)

lemma apply_numeric_None:
  "apply_series (transition_to_risk M None) xs = Inr (map (\<lambda>c. None) xs)"
  by (induction xs) (simp_all add: transition_to_risk_None)

lemma risk_lookup_no_cards_total:
  assumes "distinct (index M)"
  shows "\<exists>base. risk_lookup M None full = Inr base"
  using assms by (rule risk_lookup_total)

lemma risk_lookup_no_cards_zero:
  assumes ok: "risk_lookup M None full = Inr base"
    and nn: "risk_state_name \<notin> set (columns M) \<or> ''cluster_name'' \<notin> set (base_columns full)"
  shows "\<forall>b \<in> set (fill_risk base). snd (snd b) = 0"
proof -
  have "fill_risk base =
           map (\<lambda>r. (b_customer_id r, b_cluster r,
                      case transition_to_risk M None (b_cluster r) of
                        Inr (Some v) \<Rightarrow> v | _ \<Rightarrow> 0)) (base_rows full)"
    using ok nn by (intro risk_lookup_numeric) auto
  then show ?thesis by (auto simp: transition_to_risk_None)
qed

lemma risk_lookup_no_cards_unnamed:
  assumes nn: "risk_state_name \<notin> set (columns M) \<or> ''cluster_name'' \<notin> set (base_columns full)"
  shows "\<exists>base. risk_lookup M None full = Inr base"
  using nn by (auto simp: risk_lookup_def Let_def apply_numeric_None)

lemma merge_left_fst:
  assumes "p \<in> set (merge_left k left right)"
  shows "fst p \<in> set left"
proof -
  from assms obtain l where l: "l \<in> set left"
    and p: "p \<in> set (case filter (\<lambda>r. fst r = k l) right of
                         [] \<Rightarrow> [(l, None)]
                       | ms \<Rightarrow> map (\<lambda>r. (l, Some (snd r))) ms)"
    by (auto simp: merge_left_def)
  from p have "fst p = l" by (cases "filter (\<lambda>r. fst r = k l) right") auto
  with l show ?thesis by simp
qed

lemma merge_inputs_risk:
  assumes "r \<in> set (merge_inputs base prop sp st)"
  shows "\<exists>b \<in> set base. p_next_risk r = Some (snd (snd b))"
proof -
  from assms obtain q where
    q: "q \<in> set (merge_left (\<lambda>r. fst (fst (fst r)))
                  (merge_left (\<lambda>r. fst (fst r)) (merge_left fst base prop) sp) st)"
    and r: "p_next_risk r = Some (snd (snd (fst (fst (fst q)))))"
    by (auto simp: merge_inputs_def Let_def)
  from q have "fst q \<in> set (merge_left (\<lambda>r. fst (fst r)) (merge_left fst base prop) sp)"
    by (rule merge_left_fst)
  then have "fst (fst q) \<in> set (merge_left fst base prop)" by (rule merge_left_fst)
  then have "fst (fst (fst q)) \<in> set base" by (rule merge_left_fst)
  with r show ?thesis by blast
qed

lemma score_risk:
  assumes "r \<in> set (score df)"
  shows "\<exists>m \<in> set df. p_next_risk r = p_next_risk m"
proof -
  from assms obtain m f where "(m, f) \<in> set (zip df (final_scores df))"
    and "p_next_risk r = p_next_risk m"
    by (auto simp: score_def)
  then show ?thesis by (meson set_zip_leftD)
qed

lemma main_no_cards_completes:
  assumes "cluster_profile_cards fs = None"
    and "load_base fs = Inr b" "load_prop fs = Inr p" "load_surv fs = Inr s"
    and "load_markov_matrix fs = Inr M"
    and "distinct (index M) \<or> risk_state_name \<notin> set (columns M)
         \<or> ''cluster_name'' \<notin> set (base_columns b)"
  shows "\<exists>out. main fs = Inr out"
proof -
  have rid: "find_risk_cluster_id fs = Inr None"
    using assms(1) by (simp add: find_risk_cluster_id_def)
  obtain base where "risk_lookup M None b = Inr base"
    using assms(6) risk_lookup_no_cards_total [of M b] risk_lookup_no_cards_unnamed [of M b]
    by blast
  with assms rid show ?thesis
    by (cases s) (simp add: main_def)
qed

lemma main_no_cards_zero:
  assumes "cluster_profile_cards fs = None"
    and "load_base fs = Inr b" "load_markov_matrix fs = Inr M"
    and nn: "risk_state_name \<notin> set (columns M) \<or> ''cluster_name'' \<notin> set (base_columns b)"
    and out: "main fs = Inr out"
  shows "\<forall>r \<in> set out. p_next_risk r = Some 0"
proof
  fix r assume r: "r \<in> set out"
  have rid: "find_risk_cluster_id fs = Inr None"
    using assms(1) by (simp add: find_risk_cluster_id_def)
  from out assms(2,3) rid obtain base p sp st where
    base: "risk_lookup M None b = Inr base"
    and o: "out = score (merge_inputs (fill_risk base) p sp st)"
    by (auto simp: main_def split: sum.splits prod.splits)
  from r o obtain m where "m \<in> set (merge_inputs (fill_risk base) p sp st)"
    and "p_next_risk r = p_next_risk m" using score_risk by blast
  moreover then obtain x where "x \<in> set (fill_risk base)" "p_next_risk m = Some (snd (snd x))"
    using merge_inputs_risk by blast
  ultimately show "p_next_risk r = Some 0"
    using risk_lookup_no_cards_zero [OF base nn] by simp
qed

text \<open>
  C6, as amended. A stage fails with FileNotFoundError when a table it requires is absent:
  the raw panel for FeatureAggregator and TransitionEstimator, the feature table for
  ClusterProfiler (and for the model of TransitionEstimator when it cannot load one), a
  clustered feature table for PropensityEstimator and ScoreFusion (any of the three
  feature tables for SurvivalEstimator). ScoreFusion also fails when the propensity
  scores, one of the two survival tables or the transition matrix is absent, with
  FileNotFoundError when the loads before it succeed. The cluster profile cards are not
  required: without them \<open>find_risk_cluster_id\<close> returns \<open>None\<close>, and the run completes when
  the other inputs load (and the row labels of the matrix are distinct, or the name path
  does not apply); every customer then has transition risk 0 unless the name path applies,
  that is, unless the matrix has a column \<open>Low\<close> and the base table a column
  \<open>cluster_name\<close>.
\<close>

theorem missing_input_fails:
  "(transactions_monthly fs = None \<longrightarrow>
       (\<exists>m. build_features fs = Inl (FileNotFoundError m))
       \<and> (\<exists>m. markov_model joblib fs = Inl (FileNotFoundError m)))
   \<and> (customer_features fs = None \<longrightarrow>
       (\<exists>m. cluster_profiles_features fs = Inl (FileNotFoundError m))
       \<and> (\<not> (joblib \<and> scaler_pkl fs \<and> kmeans_pkl fs) \<longrightarrow>
            (\<exists>m. load_or_train_kmeans joblib fs = Inl (FileNotFoundError m))
            \<and> isl (markov_model joblib fs)))
   \<and> (features_named fs = None \<and> features_clustered fs = None \<longrightarrow>
       (\<exists>m. load_features fs = Inl (FileNotFoundError m))
       \<and> (\<exists>m. main fs = Inl (FileNotFoundError m))
       \<and> (customer_features fs = None \<longrightarrow> (\<exists>m. survival_features fs = Inl (FileNotFoundError m))))
   \<and> (propensity_scores fs = None \<or> survival_probabilities fs = None
       \<or> survival_expected_time fs = None \<or> markov_transition_matrix fs = None \<longrightarrow>
       isl (main fs))
   \<and> (\<forall>b. load_base fs = Inr b \<and> propensity_scores fs = None \<longrightarrow>
         (\<exists>m. main fs = Inl (FileNotFoundError m)))
   \<and> (\<forall>b p. load_base fs = Inr b \<and> load_prop fs = Inr p
         \<and> (survival_probabilities fs = None \<or> survival_expected_time fs = None) \<longrightarrow>
         (\<exists>m. main fs = Inl (FileNotFoundError m)))
   \<and> (\<forall>b p s. load_base fs = Inr b \<and> load_prop fs = Inr p \<and> load_surv fs = Inr s
         \<and> markov_transition_matrix fs = None \<longrightarrow>
         (\<exists>m. main fs = Inl (FileNotFoundError m)))
   \<and> (cluster_profile_cards fs = None \<longrightarrow> find_risk_cluster_id fs = Inr None)
   \<and> (\<forall>b p s M. cluster_profile_cards fs = None \<and> load_base fs = Inr b
         \<and> load_prop fs = Inr p \<and> load_surv fs = Inr s \<and> load_markov_matrix fs = Inr M
         \<and> (distinct (index M) \<or> risk_state_name \<notin> set (columns M)
              \<or> ''cluster_name'' \<notin> set (base_columns b)) \<longrightarrow>
         (\<exists>out. main fs = Inr out))
   \<and> (\<forall>b M out. cluster_profile_cards fs = None \<and> load_base fs = Inr b
         \<and> load_markov_matrix fs = Inr M
         \<and> (risk_state_name \<notin> set (columns M) \<or> ''cluster_name'' \<notin> set (base_columns b))
         \<and> main fs = Inr out \<longrightarrow>
         (\<forall>r \<in> set out. p_next_risk r = Some 0))"
proof (intro conjI impI allI)
  assume "transactions_monthly fs = None"
  then show "\<exists>m. build_features fs = Inl (FileNotFoundError m)"
    and "\<exists>m. markov_model joblib fs = Inl (FileNotFoundError m)"
    by (simp_all add: build_features_def read_csv_def markov_model_def)
next
  assume "customer_features fs = None"
  then show "\<exists>m. cluster_profiles_features fs = Inl (FileNotFoundError m)"
    by (simp add: cluster_profiles_features_def read_csv_def)
next
  assume a: "customer_features fs = None" "\<not> (joblib \<and> scaler_pkl fs \<and> kmeans_pkl fs)"
  then show "\<exists>m. load_or_train_kmeans joblib fs = Inl (FileNotFoundError m)"
    by (auto simp: load_or_train_kmeans_def)
  from a show "isl (markov_model joblib fs)"
    by (auto simp: markov_model_def load_or_train_kmeans_def split: option.splits list.splits)
next
  assume a: "features_named fs = None \<and> features_clustered fs = None"
  then show "\<exists>m. load_features fs = Inl (FileNotFoundError m)" by (simp add: load_features_def)
  from a show "\<exists>m. main fs = Inl (FileNotFoundError m)" by (simp add: main_no_base)
  assume "customer_features fs = None"
  with a show "\<exists>m. survival_features fs = Inl (FileNotFoundError m)"
    by (simp add: survival_features_def)
next
  assume "propensity_scores fs = None \<or> survival_probabilities fs = None
       \<or> survival_expected_time fs = None \<or> markov_transition_matrix fs = None"
  then have "isl (load_prop fs) \<or> isl (load_surv fs) \<or> isl (load_markov_matrix fs)"
    using load_prop_absent load_surv_absent load_markov_absent by blast
  then show "isl (main fs)" using main_load_fails by blast
next
  fix b assume "load_base fs = Inr b \<and> propensity_scores fs = None"
  then show "\<exists>m. main fs = Inl (FileNotFoundError m)" using main_prop_absent by blast
next
  fix b p assume "load_base fs = Inr b \<and> load_prop fs = Inr p
         \<and> (survival_probabilities fs = None \<or> survival_expected_time fs = None)"
  then show "\<exists>m. main fs = Inl (FileNotFoundError m)" using main_surv_absent by blast
next
  fix b p s assume "load_base fs = Inr b \<and> load_prop fs = Inr p \<and> load_surv fs = Inr s
         \<and> markov_transition_matrix fs = None"
  then show "\<exists>m. main fs = Inl (FileNotFoundError m)" using main_matrix_absent by blast
next
  assume "cluster_profile_cards fs = None"
  then show "find_risk_cluster_id fs = Inr None" by (simp add: find_risk_cluster_id_def)
next
  fix b p s M
  assume "cluster_profile_cards fs = None \<and> load_base fs = Inr b
         \<and> load_prop fs = Inr p \<and> load_surv fs = Inr s \<and> load_markov_matrix fs = Inr M
         \<and> (distinct (index M) \<or> risk_state_name \<notin> set (columns M)
              \<or> ''cluster_name'' \<notin> set (base_columns b))"
  then show "\<exists>out. main fs = Inr out" using main_no_cards_completes [of fs b p s M] by blast
next
  fix b M out
  assume "cluster_profile_cards fs = None \<and> load_base fs = Inr b
         \<and> load_markov_matrix fs = Inr M
         \<and> (risk_state_name \<notin> set (columns M) \<or> ''cluster_name'' \<notin> set (base_columns b))
         \<and> main fs = Inr out"
  then show "\<forall>r \<in> set out. p_next_risk r = Some 0"
    using main_no_cards_zero [of fs b M out] by blast
qed

theorem missing_input_fails_witness:
  "transactions_monthly files_none = None \<and> customer_features files_none = None
   \<and> features_named files_none = None \<and> features_clustered files_none = None
   \<and> propensity_scores files_none = None \<and> cluster_profile_cards files_none = None
   \<and> \<not> (True \<and> scaler_pkl files_none \<and> kmeans_pkl files_none)
   \<and> isl (build_features files_none) \<and> isl (markov_model True files_none)
   \<and> isl (cluster_profiles_features files_none) \<and> isl (load_features files_none)
   \<and> isl (survival_features files_none) \<and> isl (main files_none)
   \<and> find_risk_cluster_id files_none = Inr None
   \<and> load_base files_no_propensity = Inr base_demo
   \<and> propensity_scores files_no_propensity = None
   \<and> main files_no_propensity = Inl (FileNotFoundError
        ''Missing reports/tables/propensity_scores.csv (run propensity_model).'')
   \<and> load_base files_no_survival = Inr base_demo
   \<and> \<not> isl (load_prop files_no_survival)
   \<and> survival_expected_time files_no_survival = None
   \<and> main files_no_survival = Inl (FileNotFoundError
        ''Missing survival outputs. Run: python -m src.survival_model'')
   \<and> load_base files_no_matrix = Inr base_demo
   \<and> \<not> isl (load_prop files_no_matrix) \<and> \<not> isl (load_surv files_no_matrix)
   \<and> markov_transition_matrix files_no_matrix = None
   \<and> main files_no_matrix = Inl (FileNotFoundError
        ''Missing reports/tables/markov_transition_matrix.csv (run markov_transitions).'')
   \<and> cluster_profile_cards files_no_cards = None
   \<and> load_base files_no_cards = Inr base_demo
   \<and> \<not> isl (load_prop files_no_cards) \<and> \<not> isl (load_surv files_no_cards)
   \<and> load_markov_matrix files_no_cards = Inr matrix_demo
   \<and> distinct (index matrix_demo) \<and> risk_state_name \<notin> set (columns matrix_demo)
   \<and> \<not> isl (main files_no_cards)
   \<and> map p_next_risk (projr (main files_no_cards)) = [Some 0, Some 0, Some 0]
   \<and> cluster_profile_cards files_named_no_cards = None
   \<and> load_markov_matrix files_named_no_cards = Inr matrix_named
   \<and> distinct (index matrix_named)
   \<and> \<not> isl (main files_named_no_cards)
   \<and> map p_next_risk (projr (main files_named_no_cards))
       = [Some (1 / 10), Some (7 / 10), Some 0]"
proof -
  have a: "transactions_monthly files_none = None \<and> customer_features files_none = None
   \<and> features_named files_none = None \<and> features_clustered files_none = None
   \<and> propensity_scores files_none = None \<and> cluster_profile_cards files_none = None
   \<and> \<not> (True \<and> scaler_pkl files_none \<and> kmeans_pkl files_none)"
    by (simp add: files_none_def)
  have b: "load_base files_no_propensity = Inr base_demo
   \<and> propensity_scores files_no_propensity = None
   \<and> main files_no_propensity = Inl (FileNotFoundError
        ''Missing reports/tables/propensity_scores.csv (run propensity_model).'')"
    by code_simp
  have c: "load_base files_no_survival = Inr base_demo
   \<and> \<not> isl (load_prop files_no_survival)
   \<and> survival_expected_time files_no_survival = None
   \<and> main files_no_survival = Inl (FileNotFoundError
        ''Missing survival outputs. Run: python -m src.survival_model'')"
    by code_simp
  have d: "load_base files_no_matrix = Inr base_demo
   \<and> \<not> isl (load_prop files_no_matrix) \<and> \<not> isl (load_surv files_no_matrix)
   \<and> markov_transition_matrix files_no_matrix = None
   \<and> main files_no_matrix = Inl (FileNotFoundError
        ''Missing reports/tables/markov_transition_matrix.csv (run markov_transitions).'')"
    by code_simp
  have g: "cluster_profile_cards files_no_cards = None
   \<and> load_base files_no_cards = Inr base_demo
   \<and> \<not> isl (load_prop files_no_cards) \<and> \<not> isl (load_surv files_no_cards)
   \<and> load_markov_matrix files_no_cards = Inr matrix_demo
   \<and> distinct (index matrix_demo) \<and> risk_state_name \<notin> set (columns matrix_demo)
   \<and> \<not> isl (main files_no_cards)
   \<and> map p_next_risk (projr (main files_no_cards)) = [Some 0, Some 0, Some 0]"
    by code_simp
  have h: "cluster_profile_cards files_named_no_cards = None
   \<and> load_markov_matrix files_named_no_cards = Inr matrix_named
   \<and> distinct (index matrix_named)
   \<and> \<not> isl (main files_named_no_cards)
   \<and> map p_next_risk (projr (main files_named_no_cards))
       = [Some (1 / 10), Some (7 / 10), Some 0]"
    by code_simp
  have e: "isl (build_features files_none) \<and> isl (markov_model True files_none)
   \<and> isl (cluster_profiles_features files_none) \<and> isl (load_features files_none)
   \<and> isl (survival_features files_none) \<and> isl (main files_none)
   \<and> find_risk_cluster_id files_none = Inr None"
    by code_simp
  have f: "\<exists>m. build_features files_none = Inl (FileNotFoundError m)"
    using missing_input_fails [of files_none True, THEN conjunct1] a by simp
  show ?thesis using a b c d e f g h by simp
qed

text \<open>C6 as stated fails: without the profile cards ScoreFusion completes.\<close>

theorem cards_optional_counterexample:
  "cluster_profile_cards files_no_cards = None
   \<and> main files_no_cards =
       Inr [\<lparr>customer = 1, current_cluster = 0, p_next_risk = Some 0, propensity = Some 0,
             p_adopt_3m = Some (1 / 10), expected_time_months = Some 1,
             final_score = Some (12 / 100), priority = Some Low\<rparr>,
            \<lparr>customer = 2, current_cluster = 1, p_next_risk = Some 0, propensity = Some 1,
             p_adopt_3m = Some (9 / 10), expected_time_months = Some 12,
             final_score = Some (68 / 100), priority = Some High\<rparr>,
            \<lparr>customer = 3, current_cluster = 2, p_next_risk = Some 0, propensity = Some (8 / 10),
             p_adopt_3m = Some (5 / 10), expected_time_months = Some 3,
             final_score = Some (588182 / 1000000), priority = Some Medium\<rparr>]"
  by code_simp

subsection \<open>The final score\<close>

lemma length_final_scores: "length (final_scores df) = length df"
  by (simp add: final_scores_def Let_def length_minmax)

lemma final_scores_nth:
  assumes "i < length df"
  shows "final_scores df ! i =
     map_option round6
       (cell2 (\<lambda>x y. x + y)
          (cell2 (\<lambda>x y. x + y)
             (cell2 (\<lambda>x y. x * y) (Some (50 / 100)) (minmax (map propensity df) ! i))
             (cell2 (\<lambda>x y. x * y) (Some (30 / 100))
                (cell2 (\<lambda>x y. x + y)
                   (cell2 (\<lambda>x y. x * y) (Some (6 / 10)) (minmax (map p_adopt_3m df) ! i))
                   (cell2 (\<lambda>x y. x * y) (Some (4 / 10))
                      (cell2 (\<lambda>x y. x - y) (Some 1) (minmax (map expected_time_months df) ! i))))))
          (cell2 (\<lambda>x y. x * y) (Some (20 / 100)) (minmax (map p_next_risk df) ! i)))"
  using assms by (simp add: final_scores_def Let_def length_minmax)

lemma score_nth:
  assumes "i < length df"
  shows "final_score (score df ! i) = final_scores df ! i"
    and "priority (score df ! i) = (case final_scores df ! i of None \<Rightarrow> None | Some x \<Rightarrow> cut x)"
  using assms by (simp_all add: score_def length_final_scores)

lemma minmax_nth:
  assumes "series_min s = Some mn" "series_max s = Some mx" "\<not> isclose (mx - mn) 0"
    and "i < length s" "s ! i = Some v"
  shows "minmax s ! i = Some ((v - mn) / (mx - mn))"
  using assms by (simp add: minmax_def)

lemma main_Inr:
  assumes "main fs = Inr out"
  shows "\<exists>base prop surv_prob surv_time.
           out = score (merge_inputs (fill_risk base) prop surv_prob surv_time)"
  using assms by (auto simp: main_def split: sum.splits prod.splits)

text \<open>
  C1, as amended. The final score is the weighted sum
  0.50 * propensity_norm + 0.30 * (0.6 * p_adopt_3m_norm + 0.4 * (1 - expected_time_norm))
  + 0.20 * risk_norm of the min-max normalized columns, rounded to 6 decimals. In a
  population with the ranges 0..1, 0.1..0.9, 1..12 and transition risk 0..1, the customer
  with 0.8, 0.5, 3 and 0.4 gets 0.668182 and tier High. Every result of \<open>main\<close> is such
  a score of the merged frame.
\<close>

theorem final_score_formula:
  assumes "i < length df"
  shows "(\<forall>pn p3n tn rn.
            minmax (map propensity df) ! i = Some pn
          \<and> minmax (map p_adopt_3m df) ! i = Some p3n
          \<and> minmax (map expected_time_months df) ! i = Some tn
          \<and> minmax (map p_next_risk df) ! i = Some rn
          \<longrightarrow> final_score (score df ! i) =
                Some (round6 (50 / 100 * pn + 30 / 100 * (6 / 10 * p3n + 4 / 10 * (1 - tn))
                              + 20 / 100 * rn)))
       \<and> (series_min (map propensity df) = Some 0 \<and> series_max (map propensity df) = Some 1
          \<and> series_min (map p_adopt_3m df) = Some (1 / 10)
          \<and> series_max (map p_adopt_3m df) = Some (9 / 10)
          \<and> series_min (map expected_time_months df) = Some 1
          \<and> series_max (map expected_time_months df) = Some 12
          \<and> series_min (map p_next_risk df) = Some 0 \<and> series_max (map p_next_risk df) = Some 1
          \<and> propensity (df ! i) = Some (8 / 10) \<and> p_adopt_3m (df ! i) = Some (5 / 10)
          \<and> expected_time_months (df ! i) = Some 3 \<and> p_next_risk (df ! i) = Some (4 / 10)
          \<longrightarrow> final_score (score df ! i) = Some (668182 / 1000000)
              \<and> priority (score df ! i) = Some High)
       \<and> (\<forall>out. main fs = Inr out \<longrightarrow>
            (\<exists>base prop surv_prob surv_time.
               out = score (merge_inputs (fill_risk base) prop surv_prob surv_time)))"
proof (intro conjI allI impI)
  fix pn p3n tn rn
  assume "minmax (map propensity df) ! i = Some pn
          \<and> minmax (map p_adopt_3m df) ! i = Some p3n
          \<and> minmax (map expected_time_months df) ! i = Some tn
          \<and> minmax (map p_next_risk df) ! i = Some rn"
  then show "final_score (score df ! i) =
                Some (round6 (50 / 100 * pn + 30 / 100 * (6 / 10 * p3n + 4 / 10 * (1 - tn))
                              + 20 / 100 * rn))"
    using assms by (simp add: score_nth final_scores_nth cell2_def)
next
  assume h: "series_min (map propensity df) = Some 0 \<and> series_max (map propensity df) = Some 1
          \<and> series_min (map p_adopt_3m df) = Some (1 / 10)
          \<and> series_max (map p_adopt_3m df) = Some (9 / 10)
          \<and> series_min (map expected_time_months df) = Some 1
          \<and> series_max (map expected_time_months df) = Some 12
          \<and> series_min (map p_next_risk df) = Some 0 \<and> series_max (map p_next_risk df) = Some 1
          \<and> propensity (df ! i) = Some (8 / 10) \<and> p_adopt_3m (df ! i) = Some (5 / 10)
          \<and> expected_time_months (df ! i) = Some 3 \<and> p_next_risk (df ! i) = Some (4 / 10)"
  have pn: "minmax (map propensity df) ! i = Some ((8 / 10 - 0) / (1 - 0))"
    using h assms by (intro minmax_nth) (simp_all add: isclose_def)
  have p3n: "minmax (map p_adopt_3m df) ! i = Some ((5 / 10 - 1 / 10) / (9 / 10 - 1 / 10))"
    using h assms by (intro minmax_nth) (simp_all add: isclose_def)
  have tn: "minmax (map expected_time_months df) ! i = Some ((3 - 1) / (12 - 1))"
    using h assms by (intro minmax_nth) (simp_all add: isclose_def)
  have rn: "minmax (map p_next_risk df) ! i = Some ((4 / 10 - 0) / (1 - 0))"
    using h assms by (intro minmax_nth) (simp_all add: isclose_def)
  have f: "final_scores df ! i = Some (668182 / 1000000)"
    using assms pn p3n tn rn
    by (simp add: final_scores_nth cell2_def round6_def round_half_even_def Let_def)
  then show "final_score (score df ! i) = Some (668182 / 1000000)"
    using assms by (simp add: score_nth)
  from f show "priority (score df ! i) = Some High"
    using assms by (simp add: score_nth cut_def)
next
  fix out assume "main fs = Inr out"
  then show "\<exists>base prop surv_prob surv_time.
               out = score (merge_inputs (fill_risk base) prop surv_prob surv_time)"
    by (rule main_Inr)
qed

theorem final_score_formula_witness:
  "(2::nat) < length df_demo
   \<and> minmax (map propensity df_demo) ! 2 = Some (8 / 10)
   \<and> minmax (map p_adopt_3m df_demo) ! 2 = Some (5 / 10)
   \<and> minmax (map expected_time_months df_demo) ! 2 = Some (2 / 11)
   \<and> minmax (map p_next_risk df_demo) ! 2 = Some (4 / 10)
   \<and> series_min (map propensity df_demo) = Some 0 \<and> series_max (map propensity df_demo) = Some 1
   \<and> series_min (map p_adopt_3m df_demo) = Some (1 / 10)
   \<and> series_max (map p_adopt_3m df_demo) = Some (9 / 10)
   \<and> series_min (map expected_time_months df_demo) = Some 1
   \<and> series_max (map expected_time_months df_demo) = Some 12
   \<and> series_min (map p_next_risk df_demo) = Some 0 \<and> series_max (map p_next_risk df_demo) = Some 1
   \<and> propensity (df_demo ! 2) = Some (8 / 10) \<and> p_adopt_3m (df_demo ! 2) = Some (5 / 10)
   \<and> expected_time_months (df_demo ! 2) = Some 3 \<and> p_next_risk (df_demo ! 2) = Some (4 / 10)
   \<and> final_score (score df_demo ! 2) = Some (668182 / 1000000)
   \<and> priority (score df_demo ! 2) = Some High
   \<and> main files_demo = Inr (score df_demo)"
proof -
  have l: "(2::nat) < length df_demo" by code_simp
  have n: "minmax (map propensity df_demo) ! 2 = Some (8 / 10)
   \<and> minmax (map p_adopt_3m df_demo) ! 2 = Some (5 / 10)
   \<and> minmax (map expected_time_months df_demo) ! 2 = Some (2 / 11)
   \<and> minmax (map p_next_risk df_demo) ! 2 = Some (4 / 10)" by code_simp
  have r: "series_min (map propensity df_demo) = Some 0 \<and> series_max (map propensity df_demo) = Some 1
   \<and> series_min (map p_adopt_3m df_demo) = Some (1 / 10)
   \<and> series_max (map p_adopt_3m df_demo) = Some (9 / 10)
   \<and> series_min (map expected_time_months df_demo) = Some 1
   \<and> series_max (map expected_time_months df_demo) = Some 12
   \<and> series_min (map p_next_risk df_demo) = Some 0 \<and> series_max (map p_next_risk df_demo) = Some 1"
    by code_simp
  have v: "propensity (df_demo ! 2) = Some (8 / 10) \<and> p_adopt_3m (df_demo ! 2) = Some (5 / 10)
   \<and> expected_time_months (df_demo ! 2) = Some 3 \<and> p_next_risk (df_demo ! 2) = Some (4 / 10)"
    by code_simp
  have m: "main files_demo = Inr (score df_demo)" by code_simp
  show ?thesis using final_score_formula [OF l, of files_demo] l n r v m by simp
qed

text \<open>
  C1 as stated fails: the score of that customer is 0.668182, which is neither the
  unrounded sum nor 0.6682; and in a population with the same three ranges where every
  customer has transition risk 0.4, the customer gets 0.588182 and tier Medium.
\<close>

theorem final_score_counterexample:
  "main files_demo = Inr (score df_demo)
   \<and> final_score (score df_demo ! 2) = Some (668182 / 1000000)
   \<and> (668182 / 1000000 :: real) \<noteq>
        50 / 100 * (8 / 10) + 30 / 100 * (6 / 10 * (5 / 10) + 4 / 10 * (1 - 2 / 11))
        + 20 / 100 * (4 / 10)
   \<and> (668182 / 1000000 :: real) \<noteq> 6682 / 10000
   \<and> main files_flat =
       Inr [\<lparr>customer = 1, current_cluster = 2, p_next_risk = Some (4 / 10), propensity = Some 0,
             p_adopt_3m = Some (1 / 10), expected_time_months = Some 1,
             final_score = Some (12 / 100), priority = Some Low\<rparr>,
            \<lparr>customer = 2, current_cluster = 2, p_next_risk = Some (4 / 10), propensity = Some 1,
             p_adopt_3m = Some (9 / 10), expected_time_months = Some 12,
             final_score = Some (68 / 100), priority = Some High\<rparr>,
            \<lparr>customer = 3, current_cluster = 2, p_next_risk = Some (4 / 10),
             propensity = Some (8 / 10), p_adopt_3m = Some (5 / 10),
             expected_time_months = Some 3,
             final_score = Some (588182 / 1000000), priority = Some Medium\<rparr>]"
  by code_simp

end
